theory Spec2Isabelle
  imports Complex_Main
begin

section \<open>Text\<close>

text \<open>
  A Python \<open>str\<close> is modelled as a \<open>string\<close> holding its UTF-8 bytes. The characters of
  the report outside ASCII are named once and spliced into the literals with \<open>@\<close>.
\<close>

definition A_acute :: string where
  "A_acute = [CHR 0xC3, CHR 0x81]"

definition E_acute :: string where
  "E_acute = [CHR 0xC3, CHR 0x89]"

definition I_acute :: string where
  "I_acute = [CHR 0xC3, CHR 0x8D]"

definition O_acute :: string where
  "O_acute = [CHR 0xC3, CHR 0x93]"

definition a_acute :: string where
  "a_acute = [CHR 0xC3, CHR 0xA1]"

definition e_acute :: string where
  "e_acute = [CHR 0xC3, CHR 0xA9]"

definition i_acute :: string where
  "i_acute = [CHR 0xC3, CHR 0xAD]"

definition n_tilde :: string where
  "n_tilde = [CHR 0xC3, CHR 0xB1]"

definition o_acute :: string where
  "o_acute = [CHR 0xC3, CHR 0xB3]"

definition u_acute :: string where
  "u_acute = [CHR 0xC3, CHR 0xBA]"

definition bullet :: string where
  "bullet = [CHR 0xE2, CHR 0x80, CHR 0xA2]"

definition arrow_up :: string where
  "arrow_up = [CHR 0xE2, CHR 0x86, CHR 0x91]"

definition arrow_right :: string where
  "arrow_right = [CHR 0xE2, CHR 0x86, CHR 0x92]"

definition arrow_down :: string where
  "arrow_down = [CHR 0xE2, CHR 0x86, CHR 0x93]"

definition warning_sign :: string where
  "warning_sign = [CHR 0xE2, CHR 0x9A, CHR 0xA0]"

definition check_mark :: string where
  "check_mark = [CHR 0xE2, CHR 0x9C, CHR 0x85]"

definition variation_selector_16 :: string where
  "variation_selector_16 = [CHR 0xEF, CHR 0xB8, CHR 0x8F]"

definition page_facing_up :: string where
  "page_facing_up = [CHR 0xF0, CHR 0x9F, CHR 0x93, CHR 0x84]"


text \<open>Decimal digits of a natural number, and a field padded with zeros to two digits.\<close>

fun decimal :: "nat \<Rightarrow> string" where
  "decimal n = (if n < 10 then [char_of (48 + n)] else decimal (n div 10) @ [char_of (48 + n mod 10)])"

declare decimal.simps [simp del]

definition pad2 :: "nat \<Rightarrow> string" where
  "pad2 n = (if n < 10 then CHR ''0'' # decimal n else decimal n)"

section \<open>The clock: \<open>datetime.now().strftime\<close>\<close>

datatype month = January | February | March | April | May | June | July
  | August | September | October | November | December

record datetime =
  year :: nat
  month :: month
  day :: nat

text \<open>The full month name \<open>%B\<close> in the C locale (the script never calls \<open>setlocale\<close>).\<close>

fun month_name :: "month \<Rightarrow> string" where
  "month_name January = ''January''"
| "month_name February = ''February''"
| "month_name March = ''March''"
| "month_name April = ''April''"
| "month_name May = ''May''"
| "month_name June = ''June''"
| "month_name July = ''July''"
| "month_name August = ''August''"
| "month_name September = ''September''"
| "month_name October = ''October''"
| "month_name November = ''November''"
| "month_name December = ''December''"

text \<open>
  The directives the source uses: \<open>%d\<close> (day of the month, two digits), \<open>%B\<close> and \<open>%Y\<close>
  (the year in decimal). Any other directive is copied as it stands.
\<close>

definition directive :: "datetime \<Rightarrow> char \<Rightarrow> string" where
  "directive t c =
     (if c = CHR ''d'' then pad2 (day t)
      else if c = CHR ''B'' then month_name (month t)
      else if c = CHR ''Y'' then decimal (year t)
      else [CHR ''%'', c])"

fun strftime :: "datetime \<Rightarrow> string \<Rightarrow> string" where
  "strftime t [] = []"
| "strftime t [c] = [c]"
| "strftime t (c # d # fmt) =
     (if c = CHR ''%'' then directive t d @ strftime t fmt else c # strftime t (d # fmt))"

section \<open>The layout library: colours, styles, the style sheet\<close>

definition inch :: rat where
  "inch = 72"

definition letter :: "rat \<times> rat" where
  "letter = (85/10 * inch, 11 * inch)"

datatype color = HexColor string | white | black

datatype alignment = TA_LEFT | TA_CENTER | TA_RIGHT | TA_JUSTIFY

datatype arg_value =
    Num rat
  | Colour color
  | Str string
  | Enum alignment
  | Colours "color list"

text \<open>
  \<open>ParagraphStyle(name=..., parent=..., **kw)\<close>: a style is its name, its parent and the
  keyword arguments that override the parent's attributes.
\<close>

datatype paragraph_style =
  ParagraphStyle (style_name: string) (style_parent: "paragraph_style option")
    (style_kw: "(string \<times> arg_value) list")

datatype error =
    KeyError string
  | OSError string
  | UnicodeEncodeError string
  | LayoutError string

definition quoted :: "string \<Rightarrow> string" where
  "quoted s = CHR 0x27 # s @ [CHR 0x27]"

text \<open>
  The library's \<open>StyleSheet1\<close>: two dictionaries, styles by name and by alias.
  \<open>__getitem__\<close> looks an alias up first, then a name, and raises \<open>KeyError\<close> when both
  miss. \<open>add\<close> (called without an alias throughout the source) raises \<open>KeyError\<close> when
  the style's name is already a name or an alias of the sheet.
\<close>

record stylesheet =
  byName :: "(string \<times> paragraph_style) list"
  byAlias :: "(string \<times> paragraph_style) list"

definition stylesheet_getitem :: "stylesheet \<Rightarrow> string \<Rightarrow> error + paragraph_style" where
  "stylesheet_getitem ss key =
     (case map_of (byAlias ss) key of
        Some s \<Rightarrow> Inr s
      | None \<Rightarrow>
          (case map_of (byName ss) key of
             Some s \<Rightarrow> Inr s
           | None \<Rightarrow> Inl (KeyError (''Style '' @ quoted key @ '' not found in stylesheet''))))"

definition stylesheet_add :: "stylesheet \<Rightarrow> paragraph_style \<Rightarrow> error + stylesheet" where
  "stylesheet_add ss s =
     (let key = style_name s in
      if map_of (byName ss) key \<noteq> None
      then Inl (KeyError (''Style '' @ quoted key @ '' already defined in stylesheet''))
      else if map_of (byAlias ss) key \<noteq> None
      then Inl (KeyError (''Style name '' @ quoted key @ '' is already an alias in stylesheet''))
      else Inr (ss\<lparr>byName := byName ss @ [(key, s)]\<rparr>))"

section \<open>The layout library: flowables and the document template\<close>

datatype table_cmd = TableCmd string "int \<times> int" "int \<times> int" "arg_value list"

datatype table_style = TableStyle "table_cmd list"

datatype flowable =
    Paragraph string paragraph_style
  | Spacer rat rat
  | PageBreak
  | StyledTable "string list list" "rat list" "table_cmd list"

text \<open>\<open>Table(data, colWidths=...)\<close> starts with no style commands; \<open>setStyle\<close> adds some.\<close>

definition Table :: "string list list \<Rightarrow> rat list \<Rightarrow> flowable" where
  "Table data colWidths = StyledTable data colWidths []"

fun setStyle :: "flowable \<Rightarrow> table_style \<Rightarrow> flowable" where
  "setStyle (StyledTable data colWidths cmds) (TableStyle new) = StyledTable data colWidths (cmds @ new)"
| "setStyle f _ = f"

record doc_template =
  doc_filename :: string
  pagesize :: "rat \<times> rat"
  rightMargin :: rat
  leftMargin :: rat
  topMargin :: rat
  bottomMargin :: rat

text \<open>The library's constructor only records its arguments; the file is opened by \<open>build\<close>.\<close>

definition SimpleDocTemplate ::
    "string \<Rightarrow> rat \<times> rat \<Rightarrow> rat \<Rightarrow> rat \<Rightarrow> rat \<Rightarrow> rat \<Rightarrow> doc_template" where
  "SimpleDocTemplate fn ps r l t b =
     \<lparr>doc_filename = fn, pagesize = ps, rightMargin = r, leftMargin = l,
      topMargin = t, bottomMargin = b\<rparr>"

section \<open>\<open>TechnicalReportGenerator\<close>: the state and its statements\<close>

record generator =
  filename :: string
  doc :: doc_template
  styles :: stylesheet
  story :: "flowable list"

text \<open>
  A method mutates \<open>self\<close> in place and may raise: a statement maps the generator to the
  exception raised (if any) and the generator as the statement left it. A sequence of
  statements stops at the first exception.
\<close>

type_synonym stmt = "generator \<Rightarrow> error option \<times> generator"

fun seq :: "stmt list \<Rightarrow> stmt" where
  "seq [] g = (None, g)"
| "seq (s # ss) g =
     (case s g of
        (Some e, g') \<Rightarrow> (Some e, g')
      | (None, g') \<Rightarrow> seq ss g')"

text \<open>
  \<open>self.styles.add(ParagraphStyle(name=nm, parent=self.styles[par], **kw))\<close>: the parent
  is looked up, the style is built, and the sheet takes it.
\<close>

definition add_style :: "string \<Rightarrow> string \<Rightarrow> (string \<times> arg_value) list \<Rightarrow> stmt" where
  "add_style nm par kw g =
     (case stylesheet_getitem (styles g) par of
        Inl e \<Rightarrow> (Some e, g)
      | Inr p \<Rightarrow>
          (case stylesheet_add (styles g) (ParagraphStyle nm (Some p) kw) of
             Inl e \<Rightarrow> (Some e, g)
           | Inr ss \<Rightarrow> (None, g\<lparr>styles := ss\<rparr>)))"

text \<open>
  \<open>_setup_custom_styles\<close>: seven statements
  \<open>self.styles.add(ParagraphStyle(name=nm, parent=self.styles[par], **kw))\<close>, here as
  the list of their \<open>(nm, par, kw)\<close> in the order of the source.
\<close>

definition custom_specs :: "(string \<times> string \<times> (string \<times> arg_value) list) list" where
  "custom_specs =
    [(''CustomTitle'', ''Heading1'',
       [(''fontSize'', Num 24),
        (''textColor'', Colour (HexColor ''#1e3a8a'')),
        (''spaceAfter'', Num 30),
        (''alignment'', Enum TA_CENTER),
        (''fontName'', Str ''Helvetica-Bold'')]),
     (''CustomSubtitle'', ''Heading2'',
       [(''fontSize'', Num 16),
        (''textColor'', Colour (HexColor ''#3b82f6'')),
        (''spaceAfter'', Num 12),
        (''spaceBefore'', Num 12),
        (''fontName'', Str ''Helvetica-Bold'')]),
     (''Section'', ''Heading2'',
       [(''fontSize'', Num 14),
        (''textColor'', Colour (HexColor ''#1e40af'')),
        (''spaceAfter'', Num 10),
        (''spaceBefore'', Num 20),
        (''fontName'', Str ''Helvetica-Bold''),
        (''borderColor'', Colour (HexColor ''#3b82f6'')),
        (''borderWidth'', Num 0),
        (''borderPadding'', Num 5)]),
     (''Subsection'', ''Heading3'',
       [(''fontSize'', Num 12),
        (''textColor'', Colour (HexColor ''#2563eb'')),
        (''spaceAfter'', Num 8),
        (''spaceBefore'', Num 10),
        (''fontName'', Str ''Helvetica-Bold'')]),
     (''CustomCode'', ''Normal'',
       [(''fontSize'', Num 9),
        (''fontName'', Str ''Courier''),
        (''textColor'', Colour (HexColor ''#1f2937'')),
        (''leftIndent'', Num 20),
        (''rightIndent'', Num 20),
        (''spaceAfter'', Num 10),
        (''spaceBefore'', Num 10),
        (''backColor'', Colour (HexColor ''#f3f4f6''))]),
     (''Highlight'', ''BodyText'',
       [(''fontSize'', Num 11),
        (''textColor'', Colour (HexColor ''#dc2626'')),
        (''fontName'', Str ''Helvetica-Bold'')]),
     (''Metric'', ''BodyText'',
       [(''fontSize'', Num 10),
        (''textColor'', Colour (HexColor ''#059669'')),
        (''fontName'', Str ''Helvetica-Bold''),
        (''leftIndent'', Num 15)])]"

definition setup_custom_styles :: stmt where
  "setup_custom_styles = seq (map (\<lambda>(nm, par, kw). add_style nm par kw) custom_specs)"

definition default_filename :: string where
  "default_filename = ''JobNimbus_MCP_Technical_Optimization_Report.pdf''"

text \<open>
  \<open>__init__(self, filename)\<close>. The sheet \<open>sample\<close> is what the library's
  \<open>getSampleStyleSheet()\<close> returns. An exception in the constructor leaves no object.
\<close>

definition init :: "stylesheet \<Rightarrow> string \<Rightarrow> error + generator" where
  "init sample fn =
     (case setup_custom_styles
        \<lparr>filename = fn,
         doc = SimpleDocTemplate fn letter (75/100 * inch) (75/100 * inch) (75/100 * inch) (75/100 * inch),
         styles = sample,
         story = []\<rparr> of
        (Some e, _) \<Rightarrow> Inl e
      | (None, g) \<Rightarrow> Inr g)"

text \<open>
  The argument of \<open>self.story.append(...)\<close>: a paragraph whose style is looked up in
  \<open>self.styles\<close> by name (\<open>Paragraph(text, self.styles[key])\<close>), or a flowable that reads
  nothing of \<open>self\<close> (a spacer, a page break, a table).
\<close>

datatype new_flowable = Para string string | Flow flowable

definition story_append :: "new_flowable \<Rightarrow> stmt" where
  "story_append x g =
     (case x of
        Flow f \<Rightarrow> (None, g\<lparr>story := story g @ [f]\<rparr>)
      | Para text key \<Rightarrow>
          (case stylesheet_getitem (styles g) key of
             Inl e \<Rightarrow> (Some e, g)
           | Inr s \<Rightarrow> (None, g\<lparr>story := story g @ [Paragraph text s]\<rparr>)))"

text \<open>\<open>for x in xs: body\<close>, the body being a run of appends.\<close>

definition for_each :: "'a list \<Rightarrow> ('a \<Rightarrow> new_flowable list) \<Rightarrow> new_flowable list" where
  "for_each xs body = concat (map body xs)"

section \<open>The report's sections\<close>

subsection \<open>add_cover_page\<close>

definition summary_data :: "string list list" where
  "summary_data =
    [[''Componente'', ''Valor''],
     [''Herramientas Analizadas'', ''88 (73 activas)''],
     [''L'' @ i_acute @ ''neas de C'' @ o_acute @ ''digo'', ''53,515''],
     [''Tablas de Datos'', ''8 (Jobs, Contacts, Estimates, Invoices, etc.)''],
     [''Reducci'' @ o_acute @ ''n Proyectada de Tokens'', ''90-98%''],
     [''Ahorro Anual Estimado'', ''$437,400 (deployment mediano)''],
     [''ROI Proyectado'', ''1,458% anual'']]"

definition summary_table :: "flowable" where
  "summary_table =
    setStyle (Table summary_data [3 * inch, 25/10 * inch])
    (TableStyle
      [TableCmd ''BACKGROUND'' (0, 0) (-1, 0) [Colour (HexColor ''#1e3a8a'')],
       TableCmd ''TEXTCOLOR'' (0, 0) (-1, 0) [Colour white],
       TableCmd ''ALIGN'' (0, 0) (-1, -1) [Str ''LEFT''],
       TableCmd ''FONTNAME'' (0, 0) (-1, 0) [Str ''Helvetica-Bold''],
       TableCmd ''FONTSIZE'' (0, 0) (-1, 0) [Num 11],
       TableCmd ''BOTTOMPADDING'' (0, 0) (-1, 0) [Num 12],
       TableCmd ''BACKGROUND'' (0, 1) (-1, -1) [Colour (HexColor ''#f3f4f6'')],
       TableCmd ''GRID'' (0, 0) (-1, -1) [Num 1, Colour (HexColor ''#d1d5db'')],
       TableCmd ''FONTNAME'' (0, 1) (-1, -1) [Str ''Helvetica''],
       TableCmd ''FONTSIZE'' (0, 1) (-1, -1) [Num 10],
       TableCmd ''ROWBACKGROUNDS'' (0, 1) (-1, -1) [Colours [white, HexColor ''#f9fafb'']]])"

definition info_text :: "datetime \<Rightarrow> string" where
  "info_text now =
    ''\<newline>''
    @ ''        <para alignment=\"center\">\<newline>''
    @ ''        <b>Fecha de Generaci'' @ o_acute @ ''n:</b> ''
    @ strftime now ''%d de %B, %Y''
    @ ''<br/>\<newline>''
    @ ''        <b>Versi'' @ o_acute @ ''n del Servidor:</b> 1.0.2<br/>\<newline>''
    @ ''        <b>Agentes Especializados:</b> 4 (Architect, Performance, Database, Backend)<br/>\<newline>''
    @ ''        <b>Nivel de An'' @ a_acute @ ''lisis:</b> Ultra-Deep con AI Insights\<newline>''
    @ ''        </para>\<newline>''
    @ ''        ''"

definition cover_page_blocks :: "datetime \<Rightarrow> new_flowable list" where
  "cover_page_blocks now =
      [Para ''JobNimbus MCP Remote Server'' ''CustomTitle'',
       Flow (Spacer 1 (3/10 * inch)),
       Para (''An'' @ a_acute @ ''lisis T'' @ e_acute @ ''cnico Especializado de Optimizaci'' @ o_acute @ ''n'') ''CustomSubtitle'',
       Flow (Spacer 1 (5/10 * inch)),
       Flow summary_table,
       Flow (Spacer 1 (5/10 * inch)),
       Para (info_text now) ''BodyText'',
       Flow PageBreak]"

subsection \<open>add_executive_summary\<close>

definition executive_summary_summary :: "string" where
  "executive_summary_summary =
    ''\<newline>''
    @ ''        El servidor JobNimbus MCP Remote presenta un <b>problema cr'' @ i_acute @ ''tico de sobre-transmisi'' @ o_acute @ ''n de datos</b>\<newline>''
    @ ''        que resulta en un consumo excesivo de tokens (10,000-1,250,000 tokens por consulta), saturaci'' @ o_acute @ ''n\<newline>''
    @ ''        del contexto del chat, y costos operacionales elevados ($40,500/mes en deployment mediano).\<newline>''
    @ ''        ''"

definition problems :: "string list" where
  "problems =
    [''<b>1. Over-Fetching Masivo (CRITICAL):</b> Patr'' @ o_acute @ ''n fetch-all-then-filter que descarga 2,000 jobs (5 MB) para retornar 30 filtrados (75 KB), desperdiciando 98.5% de los datos.'',
     ''<b>2. Campos JSONB sin Optimizar (HIGH):</b> Transmisi'' @ o_acute @ ''n completa de campos JSONB que pueden alcanzar 100-400 KB por registro cuando solo se necesitan 5-10 KB.'',
     ''<b>3. Sin Compresi'' @ o_acute @ ''n HTTP (CRITICAL):</b> Falta middleware compression() en Express, perdiendo 60-80% de potencial ahorro de bandwidth.'',
     ''<b>4. L'' @ i_acute @ ''mites por Defecto Muy Altos (HIGH):</b> maxIterations=20 permite fetch de 2,000 jobs; deber'' @ i_acute @ ''a ser 5 (reducci'' @ o_acute @ ''n de 75%).'',
     ''<b>5. Phase 3 No Es Default (MEDIUM):</b> Handle-based system existe pero requiere par'' @ a_acute @ ''metros expl'' @ i_acute @ ''citos; 80% de herramientas no lo usan.'',
     ''<b>6. Herramientas Anal'' @ i_acute @ ''ticas Sin Optimizar (HIGH):</b> 21 herramientas procesan 100-500 registros en memoria sin paginaci'' @ o_acute @ ''n ni lazy loading.'']"

definition impact_data :: "string list list" where
  "impact_data =
    [[''M'' @ e_acute @ ''trica'', ''Antes'', ''Despu'' @ e_acute @ ''s'', ''Mejora''],
     [''Response Size'', ''120 KB'', ''12 KB'', ''90% '' @ arrow_down],
     [''Token Usage'', ''30,000'', ''3,000'', ''90% '' @ arrow_down],
     [''P50 Latency'', ''520 ms'', ''38 ms'', ''93% '' @ arrow_down],
     [''P95 Latency'', ''1,450 ms'', ''180 ms'', ''88% '' @ arrow_down],
     [''Cache Hit Rate'', ''45%'', ''87%'', ''93% '' @ arrow_up],
     [''Throughput'', ''140 req/s'', ''426 req/s'', ''3x '' @ arrow_up],
     [''Costo Mensual'', ''$40,500'', ''$4,050'', ''$36,450 ahorro'']]"

definition impact_table :: "flowable" where
  "impact_table =
    setStyle (Table impact_data [18/10 * inch, 12/10 * inch, 12/10 * inch, 13/10 * inch])
    (TableStyle
      [TableCmd ''BACKGROUND'' (0, 0) (-1, 0) [Colour (HexColor ''#1e3a8a'')],
       TableCmd ''TEXTCOLOR'' (0, 0) (-1, 0) [Colour white],
       TableCmd ''ALIGN'' (0, 0) (-1, -1) [Str ''CENTER''],
       TableCmd ''FONTNAME'' (0, 0) (-1, 0) [Str ''Helvetica-Bold''],
       TableCmd ''FONTSIZE'' (0, 0) (-1, 0) [Num 10],
       TableCmd ''BOTTOMPADDING'' (0, 0) (-1, 0) [Num 10],
       TableCmd ''BACKGROUND'' (0, 1) (-1, -1) [Colour (HexColor ''#f3f4f6'')],
       TableCmd ''GRID'' (0, 0) (-1, -1) [Num 1, Colour (HexColor ''#d1d5db'')],
       TableCmd ''FONTNAME'' (0, 1) (-1, -1) [Str ''Helvetica''],
       TableCmd ''FONTSIZE'' (0, 1) (-1, -1) [Num 9]])"

definition recommendations :: "string list" where
  "recommendations =
    [''<b>Semana 1-2:</b> Implementar Query Delegation Pattern + compression middleware + reducir l'' @ i_acute @ ''mites default (maxIterations: 20'' @ arrow_right @ ''5, fetchSize: 500'' @ arrow_right @ ''100)'',
     ''<b>Semana 3-4:</b> Implementar JSONB Field Projection + forzar verbosity='compact' por defecto en todas las herramientas'',
     ''<b>Semana 5-6:</b> Migrar 58 herramientas restantes a Phase 3 + optimizar top 10 herramientas anal'' @ i_acute @ ''ticas'',
     ''<b>Mes 2:</b> Implementar Aggregation Service + Smart Cache Invalidation + Streaming Responses'']"

definition executive_summary_blocks :: "new_flowable list" where
  "executive_summary_blocks =
      [Para ''RESUMEN EJECUTIVO'' ''Section'',
       Para executive_summary_summary ''BodyText'',
       Flow (Spacer 1 12),
       Para (''Problemas Cr'' @ i_acute @ ''ticos Identificados:'') ''Subsection'']
    @ for_each problems (\<lambda>problem.
        [Para problem ''BodyText'',
         Flow (Spacer 1 8)])
    @ [Flow (Spacer 1 12),
       Para ''Impacto Cuantificado:'' ''Subsection'',
       Flow impact_table,
       Flow (Spacer 1 12),
       Para ''Recomendaciones Principales (Prioridad CRITICAL):'' ''Subsection'']
    @ for_each recommendations (\<lambda>rec.
        [Para rec ''BodyText'',
         Flow (Spacer 1 8)])
    @ [Flow PageBreak]"

subsection \<open>add_technical_analysis\<close>

definition arch_text :: "string" where
  "arch_text =
    ''\<newline>''
    @ ''        El servidor utiliza una arquitectura de <b>4 capas</b>: Presentaci'' @ o_acute @ ''n (MCP Protocol),\<newline>''
    @ ''        L'' @ o_acute @ ''gica de Negocio (73 tool classes), Servicios (JobNimbusClient, CacheService, HandleStorage),\<newline>''
    @ ''        y Datos (JobNimbus REST API + Redis Cache). La arquitectura es fundamentalmente <b>stateless</b>\<newline>''
    @ ''        con un sistema handle-based para respuestas grandes implementado parcialmente (Phase 3).\<newline>''
    @ ''        ''"

definition stack_data :: "string list list" where
  "stack_data =
    [[''Componente'', ''Tecnolog'' @ i_acute @ ''a'', ''Versi'' @ o_acute @ ''n''],
     [''Runtime'', ''Node.js'', ''>=20.0.0''],
     [''Framework'', ''Express.js'', ''4.18.2''],
     [''Lenguaje'', ''TypeScript'', ''5.9.3''],
     [''Protocol'', ''MCP SDK'', ''0.5.0''],
     [''Cache'', ''Redis (ioredis)'', ''5.8.1''],
     [''Security'', ''Helmet'', ''7.1.0''],
     [''Logging'', ''Winston'', ''3.11.0''],
     [''Validation'', ''Zod'', ''3.22.4'']]"

definition stack_table :: "flowable" where
  "stack_table =
    setStyle (Table stack_data [18/10 * inch, 2 * inch, 15/10 * inch])
    (TableStyle
      [TableCmd ''BACKGROUND'' (0, 0) (-1, 0) [Colour (HexColor ''#1e3a8a'')],
       TableCmd ''TEXTCOLOR'' (0, 0) (-1, 0) [Colour white],
       TableCmd ''ALIGN'' (0, 0) (-1, -1) [Str ''LEFT''],
       TableCmd ''FONTNAME'' (0, 0) (-1, 0) [Str ''Helvetica-Bold''],
       TableCmd ''FONTSIZE'' (0, 0) (-1, 0) [Num 10],
       TableCmd ''BOTTOMPADDING'' (0, 0) (-1, 0) [Num 10],
       TableCmd ''BACKGROUND'' (0, 1) (-1, -1) [Colour (HexColor ''#f9fafb'')],
       TableCmd ''GRID'' (0, 0) (-1, -1) [Num 1, Colour (HexColor ''#d1d5db'')],
       TableCmd ''FONTNAME'' (0, 1) (-1, -1) [Str ''Helvetica''],
       TableCmd ''FONTSIZE'' (0, 1) (-1, -1) [Num 9],
       TableCmd ''ROWBACKGROUNDS'' (0, 1) (-1, -1) [Colours [white, HexColor ''#f3f4f6'']]])"

definition transmission_text :: "string" where
  "transmission_text =
    ''\<newline>''
    @ ''        La transmisi'' @ o_acute @ ''n de datos actual presenta <b>ineficiencias masivas</b> en tres niveles:\<newline>''
    @ ''        ''"

definition transmission_issues :: "string list" where
  "transmission_issues =
    [''<b>Nivel 1 - Fetch:</b> Se descargan 95-99% m'' @ a_acute @ ''s datos de los necesarios debido al patr'' @ o_acute @ ''n fetch-all-then-filter. Ejemplo: getJobs con filtro de fecha descarga 2,000 jobs (300 MB) para retornar 150 (30 KB).'',
     ''<b>Nivel 2 - Serializaci'' @ o_acute @ ''n:</b> Campos JSONB (custom_fields, related, tags, items) se transmiten completos sin compactaci'' @ o_acute @ ''n. Un job con 89+ campos puede ocupar 150 KB cuando solo se necesitan 5 KB.'',
     ''<b>Nivel 3 - Compresi'' @ o_acute @ ''n:</b> No hay middleware de compresi'' @ o_acute @ ''n HTTP. GZIP reducir'' @ i_acute @ ''a 60% el tama'' @ n_tilde @ ''o de responses, Brotli 70%.'']"

definition scenarios_data :: "string list list" where
  "scenarios_data =
    [[''Escenario'', ''Fetch'', ''Return'', ''Desperdicio'', ''Tokens''],
     [''Get Jobs (sin filtros)'', ''12 KB'', ''12 KB'', ''0%'', ''3,000''],
     [''Get Jobs (filtros fecha)'', ''300 MB'', ''30 KB'', ''99.99%'', ''7,500''],
     [''Insurance Pipeline'', ''40 MB'', ''200 KB'', ''99.5%'', ''50,000''],
     [''Get Job (con verify)'', ''2.65 MB'', ''8 KB'', ''99.7%'', ''2,000''],
     [''Revenue Report'', ''150 MB'', ''500 KB'', ''99.67%'', ''1,250,000'']]"

definition scenarios_table :: "flowable" where
  "scenarios_table =
    setStyle (Table scenarios_data [15/10 * inch, 1 * inch, 1 * inch, 1 * inch, 1 * inch])
    (TableStyle
      [TableCmd ''BACKGROUND'' (0, 0) (-1, 0) [Colour (HexColor ''#dc2626'')],
       TableCmd ''TEXTCOLOR'' (0, 0) (-1, 0) [Colour white],
       TableCmd ''ALIGN'' (0, 0) (-1, -1) [Str ''CENTER''],
       TableCmd ''FONTNAME'' (0, 0) (-1, 0) [Str ''Helvetica-Bold''],
       TableCmd ''FONTSIZE'' (0, 0) (-1, 0) [Num 9],
       TableCmd ''BOTTOMPADDING'' (0, 0) (-1, 0) [Num 8],
       TableCmd ''BACKGROUND'' (0, 1) (-1, -1) [Colour (HexColor ''#fef2f2'')],
       TableCmd ''GRID'' (0, 0) (-1, -1) [Num 1, Colour (HexColor ''#fecaca'')],
       TableCmd ''FONTNAME'' (0, 1) (-1, -1) [Str ''Helvetica''],
       TableCmd ''FONTSIZE'' (0, 1) (-1, -1) [Num 8]])"

definition technical_analysis_blocks :: "new_flowable list" where
  "technical_analysis_blocks =
      [Para (''AN'' @ A_acute @ ''LISIS T'' @ E_acute @ ''CNICO DETALLADO'') ''Section'',
       Para ''1. Arquitectura Actual del Sistema'' ''Subsection'',
       Para arch_text ''BodyText'',
       Flow (Spacer 1 12),
       Para (''Stack Tecnol'' @ o_acute @ ''gico:'') ''Subsection'',
       Flow stack_table,
       Flow (Spacer 1 15),
       Para (''2. An'' @ a_acute @ ''lisis de Transmisi'' @ o_acute @ ''n de Datos'') ''Subsection'',
       Para transmission_text ''BodyText'',
       Flow (Spacer 1 10)]
    @ for_each transmission_issues (\<lambda>issue.
        [Para issue ''BodyText'',
         Flow (Spacer 1 8)])
    @ [Flow (Spacer 1 12),
       Para ''Escenarios de Uso y Consumo de Datos:'' ''Subsection'',
       Flow scenarios_table,
       Flow (Spacer 1 10),
       Para (''<b>'' @ warning_sign @ variation_selector_16 @ '' NOTA CR'' @ I_acute @ ''TICA:</b> Los escenarios con desperdicio >99% son insostenibles en producci'' @ o_acute @ ''n y causan saturaci'' @ o_acute @ ''n del chat.'') ''Highlight'',
       Flow PageBreak]"

subsection \<open>add_optimization_strategies\<close>

definition optimization_strategies_intro :: "string" where
  "optimization_strategies_intro =
    ''\<newline>''
    @ ''        Se han dise'' @ n_tilde @ ''ado <b>6 estrategias de optimizaci'' @ o_acute @ ''n</b> complementarias que trabajan en conjunto\<newline>''
    @ ''        para reducir la transmisi'' @ o_acute @ ''n de datos en 90-98%. Cada estrategia aborda un aspecto espec'' @ i_acute @ ''fico\<newline>''
    @ ''        del problema y puede implementarse de forma incremental.\<newline>''
    @ ''        ''"

definition strategy1 :: "string" where
  "strategy1 =
    ''\<newline>''
    @ ''        <b>Objetivo:</b> Delegar filtrado, ordenamiento y paginaci'' @ o_acute @ ''n al backend de JobNimbus siempre que sea posible.<br/>\<newline>''
    @ ''        <b>Impacto:</b> Reducci'' @ o_acute @ ''n de 90-95% en datos transferidos<br/>\<newline>''
    @ ''        <b>Complejidad:</b> Media (requiere modificar JobNimbusClient)<br/>\<newline>''
    @ ''        <b>Archivos afectados:</b> src/services/jobNimbusClient.ts, src/tools/jobs/getJobs.ts (y 15+ herramientas)\<newline>''
    @ ''        ''"

definition code1 :: "string" where
  "code1 =
    ''\<newline>''
    @ ''// ANTES (fetch-all-then-filter)\<newline>''
    @ ''const allJobs = await this.client.get(apiKey, 'jobs', { size: 2000 });\<newline>''
    @ ''const filtered = allJobs.filter(j => j.date_created >= fromDate);\<newline>''
    @ ''\<newline>''
    @ ''// DESPU'' @ E_acute @ ''S (query delegation)\<newline>''
    @ ''const jobs = await this.client.get(apiKey, 'jobs', {\<newline>''
    @ ''  size: 20,\<newline>''
    @ ''  filter: JSON.stringify({\<newline>''
    @ ''    must: [{ range: { date_created: { gte: fromDate } } }]\<newline>''
    @ ''  })\<newline>''
    @ ''});\<newline>''
    @ ''        ''"

definition strategy2 :: "string" where
  "strategy2 =
    ''\<newline>''
    @ ''        <b>Objetivo:</b> Seleccionar solo los campos necesarios, excluyendo JSONB pesados cuando no se requieren.<br/>\<newline>''
    @ ''        <b>Impacto:</b> Reducci'' @ o_acute @ ''n de 80-95% en tama'' @ n_tilde @ ''o de respuesta individual<br/>\<newline>''
    @ ''        <b>Complejidad:</b> Baja (agregar par'' @ a_acute @ ''metro fields)<br/>\<newline>''
    @ ''        <b>Archivos afectados:</b> src/services/jobNimbusClient.ts, src/utils/fieldSelector.ts (nuevo)\<newline>''
    @ ''        ''"

definition code2 :: "string" where
  "code2 =
    ''\<newline>''
    @ ''// Implementaci'' @ o_acute @ ''n de field selection\<newline>''
    @ ''interface APIOptions {\<newline>''
    @ ''  fields?: string[];\<newline>''
    @ ''  exclude_jsonb?: boolean;\<newline>''
    @ ''}\<newline>''
    @ ''\<newline>''
    @ ''await this.client.get(apiKey, 'jobs', {\<newline>''
    @ ''  fields: ['jnid', 'number', 'name', 'status_name', 'date_created'],\<newline>''
    @ ''  exclude_jsonb: true\<newline>''
    @ ''});\<newline>''
    @ ''\<newline>''
    @ ''// Reduce de 150 KB a 5 KB por job (97% reducci'' @ o_acute @ ''n)\<newline>''
    @ ''        ''"

definition strategy3 :: "string" where
  "strategy3 =
    ''\<newline>''
    @ ''        <b>Objetivo:</b> Forzar uso del sistema handle-based (Phase 3) en TODAS las herramientas.<br/>\<newline>''
    @ ''        <b>Impacto:</b> Consistencia 100%, reducci'' @ o_acute @ ''n 70-90% en tokens<br/>\<newline>''
    @ ''        <b>Complejidad:</b> Baja (modificar BaseTool.execute)<br/>\<newline>''
    @ ''        <b>Archivos afectados:</b> src/tools/baseTool.ts\<newline>''
    @ ''        ''"

definition code3 :: "string" where
  "code3 =
    ''\<newline>''
    @ ''// En BaseTool.execute()\<newline>''
    @ ''async execute(input: TInput, context: ToolContext) {\<newline>''
    @ ''  // Force verbosity default\<newline>''
    @ ''  if (!input.verbosity) {\<newline>''
    @ ''    input.verbosity = 'compact';\<newline>''
    @ ''  }\<newline>''
    @ ''\<newline>''
    @ ''  const rawData = await this.executeImpl(input, context);\<newline>''
    @ ''\<newline>''
    @ ''  // ALWAYS wrap response\<newline>''
    @ ''  return await this.wrapResponse(rawData, input, context);\<newline>''
    @ ''}\<newline>''
    @ ''        ''"

definition additional_strategies :: "string list" where
  "additional_strategies =
    [''<b>Estrategia 4 - HTTP Compression:</b> Agregar middleware compression() en Express para GZIP/Brotli (60-70% reducci'' @ o_acute @ ''n de bandwidth). Complejidad: Muy baja (1 l'' @ i_acute @ ''nea de c'' @ o_acute @ ''digo).'',
     ''<b>Estrategia 5 - Reduced Default Limits:</b> Cambiar maxIterations de 20 a 5, fetchSize de 500 a 100 (75% reducci'' @ o_acute @ ''n en fetches). Complejidad: Muy baja (configuraci'' @ o_acute @ ''n).'',
     ''<b>Estrategia 6 - Smart Cache Multi-Tier:</b> Implementar cache de 3 niveles (Hot/Warm/Handle) con predictive warming. Complejidad: Alta (nueva infraestructura).'']"

definition optimization_strategies_blocks :: "new_flowable list" where
  "optimization_strategies_blocks =
      [Para (''ESTRATEGIAS DE OPTIMIZACI'' @ O_acute @ ''N'') ''Section'',
       Para optimization_strategies_intro ''BodyText'',
       Flow (Spacer 1 15),
       Para ''Estrategia 1: Query Delegation Pattern'' ''Subsection'',
       Para strategy1 ''BodyText'',
       Flow (Spacer 1 10),
       Para code1 ''Code'',
       Flow (Spacer 1 12),
       Para ''Estrategia 2: JSONB Field Projection'' ''Subsection'',
       Para strategy2 ''BodyText'',
       Flow (Spacer 1 10),
       Para code2 ''Code'',
       Flow (Spacer 1 12),
       Para ''Estrategia 3: Mandatory Phase 3 Enforcement'' ''Subsection'',
       Para strategy3 ''BodyText'',
       Flow (Spacer 1 10),
       Para code3 ''Code'',
       Flow (Spacer 1 12),
       Para ''Estrategias Adicionales (4-6):'' ''Subsection'']
    @ for_each additional_strategies (\<lambda>strategy.
        [Para strategy ''BodyText'',
         Flow (Spacer 1 8)])
    @ [Flow PageBreak]"

subsection \<open>add_implementation_plan\<close>

definition implementation_plan_intro :: "string" where
  "implementation_plan_intro =
    ''\<newline>''
    @ ''        El plan de implementaci'' @ o_acute @ ''n est'' @ a_acute @ '' estructurado en <b>5 fases</b> a lo largo de 10 semanas,\<newline>''
    @ ''        con entregables espec'' @ i_acute @ ''ficos, m'' @ e_acute @ ''tricas de '' @ e_acute @ ''xito y procedimientos de rollback para cada fase.\<newline>''
    @ ''        La inversi'' @ o_acute @ ''n total es de $30,010 inicial + $10/mes operacional.\<newline>''
    @ ''        ''"

definition phase1 :: "string" where
  "phase1 =
    ''\<newline>''
    @ ''        <b>Objetivo:</b> Establecer infraestructura base para optimizaciones<br/>\<newline>''
    @ ''        <b>Duraci'' @ o_acute @ ''n:</b> 2 semanas<br/>\<newline>''
    @ ''        <b>Inversi'' @ o_acute @ ''n:</b> $6,000<br/>\<newline>''
    @ ''        <b>Entregables:</b>\<newline>''
    @ ''        ''"

definition phase1_deliverables :: "string list" where
  "phase1_deliverables =
    [bullet @ '' Query Parser & Validator con Zod'',
     bullet @ '' Field Selector Engine para JSONB projection'',
     bullet @ '' Backward Compatibility Middleware'',
     bullet @ '' Unit tests (>80% coverage)'']"

definition phase2 :: "string" where
  "phase2 =
    ''\<newline>''
    @ ''        <b>Objetivo:</b> Implementar compresi'' @ o_acute @ ''n, transformaci'' @ o_acute @ ''n y cache<br/>\<newline>''
    @ ''        <b>Duraci'' @ o_acute @ ''n:</b> 2 semanas<br/>\<newline>''
    @ ''        <b>Inversi'' @ o_acute @ ''n:</b> $6,000<br/>\<newline>''
    @ ''        <b>Entregables:</b>\<newline>''
    @ ''        ''"

definition phase2_deliverables :: "string list" where
  "phase2_deliverables =
    [bullet @ '' Data Transformer con 4 niveles de verbosity'',
     bullet @ '' Compression Middleware (GZIP + Brotli)'',
     bullet @ '' Smart Cache Manager (3 tiers)'',
     bullet @ '' Integration tests'']"

definition phase3 :: "string" where
  "phase3 =
    ''\<newline>''
    @ ''        <b>Objetivo:</b> Agregar inteligencia predictiva al cache<br/>\<newline>''
    @ ''        <b>Duraci'' @ o_acute @ ''n:</b> 2 semanas<br/>\<newline>''
    @ ''        <b>Inversi'' @ o_acute @ ''n:</b> $6,000<br/>\<newline>''
    @ ''        <b>Entregables:</b>\<newline>''
    @ ''        ''"

definition phase3_deliverables :: "string list" where
  "phase3_deliverables =
    [bullet @ '' Access Pattern Analyzer'',
     bullet @ '' Predictive Cache Warming (ML-based)'',
     bullet @ '' Dynamic TTL Manager'',
     bullet @ '' Performance benchmarks'']"

definition phase4 :: "string" where
  "phase4 =
    ''\<newline>''
    @ ''        <b>Objetivo:</b> Migrar todas las 88 herramientas a nuevo sistema<br/>\<newline>''
    @ ''        <b>Duraci'' @ o_acute @ ''n:</b> 2 semanas<br/>\<newline>''
    @ ''        <b>Inversi'' @ o_acute @ ''n:</b> $8,000<br/>\<newline>''
    @ ''        <b>Entregables:</b>\<newline>''
    @ ''        ''"

definition phase4_deliverables :: "string list" where
  "phase4_deliverables =
    [bullet @ '' 88 herramientas migradas a Phase 3'',
     bullet @ '' Documentaci'' @ o_acute @ ''n actualizada (README, API docs)'',
     bullet @ '' E2E testing suite'',
     bullet @ '' Staging deployment'']"

definition phase5 :: "string" where
  "phase5 =
    ''\<newline>''
    @ ''        <b>Objetivo:</b> Limpiar c'' @ o_acute @ ''digo legacy y lanzar a producci'' @ o_acute @ ''n<br/>\<newline>''
    @ ''        <b>Duraci'' @ o_acute @ ''n:</b> 2 semanas<br/>\<newline>''
    @ ''        <b>Inversi'' @ o_acute @ ''n:</b> $4,000<br/>\<newline>''
    @ ''        <b>Entregables:</b>\<newline>''
    @ ''        ''"

definition phase5_deliverables :: "string list" where
  "phase5_deliverables =
    [bullet @ '' C'' @ o_acute @ ''digo legacy removido'',
     bullet @ '' Performance tuning final'',
     bullet @ '' Production deployment'',
     bullet @ '' Monitoring dashboard configurado'']"

definition timeline_data :: "string list list" where
  "timeline_data =
    [[''Fase'', ''Semanas'', ''Inversi'' @ o_acute @ ''n'', ''Entregables Clave''],
     [''1. Foundation'', ''1-2'', ''$6,000'', ''Query Parser, Field Selector''],
     [''2. Optimization'', ''3-4'', ''$6,000'', ''Compression, Cache, Transformer''],
     [''3. Intelligence'', ''5-6'', ''$6,000'', ''Predictive Cache, Dynamic TTL''],
     [''4. Migration'', ''7-8'', ''$8,000'', ''88 tools migrated, E2E tests''],
     [''5. Launch'', ''9-10'', ''$4,000'', ''Production deployment, monitoring''],
     [''TOTAL'', ''10 semanas'', ''$30,000'', ''+ $10/mes operacional'']]"

definition timeline_table :: "flowable" where
  "timeline_table =
    setStyle (Table timeline_data [12/10 * inch, 1 * inch, 1 * inch, 23/10 * inch])
    (TableStyle
      [TableCmd ''BACKGROUND'' (0, 0) (-1, 0) [Colour (HexColor ''#1e3a8a'')],
       TableCmd ''TEXTCOLOR'' (0, 0) (-1, 0) [Colour white],
       TableCmd ''ALIGN'' (0, 0) (-1, -1) [Str ''CENTER''],
       TableCmd ''FONTNAME'' (0, 0) (-1, 0) [Str ''Helvetica-Bold''],
       TableCmd ''FONTSIZE'' (0, 0) (-1, 0) [Num 9],
       TableCmd ''BOTTOMPADDING'' (0, 0) (-1, 0) [Num 8],
       TableCmd ''BACKGROUND'' (0, 1) (0, -2) [Colour (HexColor ''#f3f4f6'')],
       TableCmd ''BACKGROUND'' (-1, -1) (-1, -1) [Colour (HexColor ''#dcfce7'')],
       TableCmd ''GRID'' (0, 0) (-1, -1) [Num 1, Colour (HexColor ''#d1d5db'')],
       TableCmd ''FONTNAME'' (0, 1) (-1, -1) [Str ''Helvetica''],
       TableCmd ''FONTSIZE'' (0, 1) (-1, -1) [Num 8],
       TableCmd ''FONTNAME'' (-1, -1) (-1, -1) [Str ''Helvetica-Bold'']])"

definition implementation_plan_blocks :: "new_flowable list" where
  "implementation_plan_blocks =
      [Para (''PLAN DE IMPLEMENTACI'' @ O_acute @ ''N'') ''Section'',
       Para implementation_plan_intro ''BodyText'',
       Flow (Spacer 1 15),
       Para ''Fase 1: Foundation (Semana 1-2)'' ''Subsection'',
       Para phase1 ''BodyText'']
    @ for_each phase1_deliverables (\<lambda>item.
        [Para item ''BodyText''])
    @ [Flow (Spacer 1 8),
       Para (''<b>M'' @ e_acute @ ''tricas de '' @ E_acute @ ''xito:</b> Validaci'' @ o_acute @ ''n de queries funcional, field selection operativo, tests pasando'') ''Metric'',
       Flow (Spacer 1 12),
       Para ''Fase 2: Optimization Layer (Semana 3-4)'' ''Subsection'',
       Para phase2 ''BodyText'']
    @ for_each phase2_deliverables (\<lambda>item.
        [Para item ''BodyText''])
    @ [Flow (Spacer 1 8),
       Para (''<b>M'' @ e_acute @ ''tricas de '' @ E_acute @ ''xito:</b> 60% reducci'' @ o_acute @ ''n en response size, cache hit rate >50%, compresi'' @ o_acute @ ''n funcional'') ''Metric'',
       Flow (Spacer 1 12),
       Para ''Fase 3: Intelligence Layer (Semana 5-6)'' ''Subsection'',
       Para phase3 ''BodyText'']
    @ for_each phase3_deliverables (\<lambda>item.
        [Para item ''BodyText''])
    @ [Flow (Spacer 1 8),
       Para (''<b>M'' @ e_acute @ ''tricas de '' @ E_acute @ ''xito:</b> Cache hit rate >70%, predicci'' @ o_acute @ ''n >50% accuracy, TTL auto-tuning funcional'') ''Metric'',
       Flow (Spacer 1 12),
       Para ''Fase 4: Full Migration (Semana 7-8)'' ''Subsection'',
       Para phase4 ''BodyText'']
    @ for_each phase4_deliverables (\<lambda>item.
        [Para item ''BodyText''])
    @ [Flow (Spacer 1 8),
       Para (''<b>M'' @ e_acute @ ''tricas de '' @ E_acute @ ''xito:</b> 100% herramientas migradas, E2E tests >95% passing, staging estable'') ''Metric'',
       Flow (Spacer 1 12),
       Para ''Fase 5: Cleanup & Launch (Semana 9-10)'' ''Subsection'',
       Para phase5 ''BodyText'']
    @ for_each phase5_deliverables (\<lambda>item.
        [Para item ''BodyText''])
    @ [Flow (Spacer 1 8),
       Para (''<b>M'' @ e_acute @ ''tricas de '' @ E_acute @ ''xito:</b> Production estable, m'' @ e_acute @ ''tricas objetivo alcanzadas, zero critical bugs'') ''Metric'',
       Flow (Spacer 1 12),
       Flow timeline_table,
       Flow PageBreak]"

subsection \<open>add_roi_analysis\<close>

definition roi_analysis_intro :: "string" where
  "roi_analysis_intro =
    ''\<newline>''
    @ ''        El an'' @ a_acute @ ''lisis de ROI considera tres escenarios de deployment (peque'' @ n_tilde @ ''o, mediano, grande)\<newline>''
    @ ''        con proyecciones a 1, 3 y 5 a'' @ n_tilde @ ''os. El payback period es de <b>0.82 meses</b> en deployment\<newline>''
    @ ''        mediano, con ROI anual de <b>1,458%</b>.\<newline>''
    @ ''        ''"

definition costs_data :: "string list list" where
  "costs_data =
    [[''Deployment'', ''Usuarios'', ''Antes'', ''Despu'' @ e_acute @ ''s'', ''Ahorro/Mes'', ''Ahorro/A'' @ n_tilde @ ''o''],
     [''Peque'' @ n_tilde @ ''o'', ''10'', ''$8,100'', ''$810'', ''$7,290'', ''$87,480''],
     [''Mediano'', ''50'', ''$40,500'', ''$4,050'', ''$36,450'', ''$437,400''],
     [''Grande'', ''200'', ''$162,000'', ''$16,200'', ''$145,800'', ''$1,749,600'']]"

definition costs_table :: "flowable" where
  "costs_table =
    setStyle (Table costs_data [12/10 * inch, 9/10 * inch, 1 * inch, 1 * inch, 11/10 * inch, 11/10 * inch])
    (TableStyle
      [TableCmd ''BACKGROUND'' (0, 0) (-1, 0) [Colour (HexColor ''#059669'')],
       TableCmd ''TEXTCOLOR'' (0, 0) (-1, 0) [Colour white],
       TableCmd ''ALIGN'' (0, 0) (-1, -1) [Str ''CENTER''],
       TableCmd ''FONTNAME'' (0, 0) (-1, 0) [Str ''Helvetica-Bold''],
       TableCmd ''FONTSIZE'' (0, 0) (-1, 0) [Num 9],
       TableCmd ''BOTTOMPADDING'' (0, 0) (-1, 0) [Num 8],
       TableCmd ''BACKGROUND'' (0, 1) (-1, -1) [Colour (HexColor ''#f0fdf4'')],
       TableCmd ''GRID'' (0, 0) (-1, -1) [Num 1, Colour (HexColor ''#bbf7d0'')],
       TableCmd ''FONTNAME'' (0, 1) (-1, -1) [Str ''Helvetica''],
       TableCmd ''FONTSIZE'' (0, 1) (-1, -1) [Num 8],
       TableCmd ''TEXTCOLOR'' (4, 1) (5, -1) [Colour (HexColor ''#059669'')],
       TableCmd ''FONTNAME'' (4, 1) (5, -1) [Str ''Helvetica-Bold'']])"

definition roi_data :: "string list list" where
  "roi_data =
    [[''Per'' @ i_acute @ ''odo'', ''Inversi'' @ o_acute @ ''n'', ''Ahorro'', ''ROI'', ''Payback''],
     [''A'' @ n_tilde @ ''o 1'', ''$30,010'', ''$437,400'', ''1,458%'', ''0.82 meses''],
     [''A'' @ n_tilde @ ''o 3'', ''$30,370'', ''$1,312,200'', ''4,321%'', ''-''],
     [''A'' @ n_tilde @ ''o 5'', ''$30,730'', ''$2,187,000'', ''7,115%'', ''-'']]"

definition roi_table :: "flowable" where
  "roi_table =
    setStyle (Table roi_data [12/10 * inch, 12/10 * inch, 12/10 * inch, 1 * inch, 12/10 * inch])
    (TableStyle
      [TableCmd ''BACKGROUND'' (0, 0) (-1, 0) [Colour (HexColor ''#1e3a8a'')],
       TableCmd ''TEXTCOLOR'' (0, 0) (-1, 0) [Colour white],
       TableCmd ''ALIGN'' (0, 0) (-1, -1) [Str ''CENTER''],
       TableCmd ''FONTNAME'' (0, 0) (-1, 0) [Str ''Helvetica-Bold''],
       TableCmd ''FONTSIZE'' (0, 0) (-1, 0) [Num 9],
       TableCmd ''BOTTOMPADDING'' (0, 0) (-1, 0) [Num 8],
       TableCmd ''BACKGROUND'' (0, 1) (-1, -1) [Colour (HexColor ''#eff6ff'')],
       TableCmd ''GRID'' (0, 0) (-1, -1) [Num 1, Colour (HexColor ''#bfdbfe'')],
       TableCmd ''FONTNAME'' (0, 1) (-1, -1) [Str ''Helvetica''],
       TableCmd ''FONTSIZE'' (0, 1) (-1, -1) [Num 8]])"

definition intangible_benefits :: "string list" where
  "intangible_benefits =
    [''<b>Experiencia de Usuario Mejorada:</b> Reducci'' @ o_acute @ ''n de 93% en latencia P50 (520ms '' @ arrow_right @ '' 38ms) mejora significativamente la UX.'',
     ''<b>Escalabilidad:</b> Throughput aumenta 3x (140 req/s '' @ arrow_right @ '' 426 req/s), permitiendo crecer sin infraestructura adicional.'',
     ''<b>Calidad de Respuestas:</b> Menos tokens desperdiciados = m'' @ a_acute @ ''s contexto '' @ u_acute @ ''til = respuestas m'' @ a_acute @ ''s precisas del AI.'',
     ''<b>Competitividad:</b> Sistema enterprise-grade con performance comparable a soluciones comerciales de $100k+.'']"

definition roi_analysis_blocks :: "new_flowable list" where
  "roi_analysis_blocks =
      [Para (''AN'' @ A_acute @ ''LISIS DE ROI Y M'' @ E_acute @ ''TRICAS FINANCIERAS'') ''Section'',
       Para roi_analysis_intro ''BodyText'',
       Flow (Spacer 1 15),
       Para ''Costos Operacionales Mensuales:'' ''Subsection'',
       Flow costs_table,
       Flow (Spacer 1 15),
       Para ''ROI por Escenario (Deployment Mediano):'' ''Subsection'',
       Flow roi_table,
       Flow (Spacer 1 15),
       Para ''Beneficios Intangibles:'' ''Subsection'']
    @ for_each intangible_benefits (\<lambda>benefit.
        [Para benefit ''BodyText'',
         Flow (Spacer 1 8)])
    @ [Flow PageBreak]"

subsection \<open>add_conclusions\<close>

definition conclusions :: "string list" where
  "conclusions =
    [''<b>1. Problema Cr'' @ i_acute @ ''tico Confirmado:</b> El servidor transmite 95-99% m'' @ a_acute @ ''s datos de los necesarios, consumiendo 10,000-1,250,000 tokens por consulta y saturando el contexto del chat.'',
     ''<b>2. Soluci'' @ o_acute @ ''n Enterprise-Grade Dise'' @ n_tilde @ ''ada:</b> Arquitectura de 6 estrategias complementarias que reducen transmisi'' @ o_acute @ ''n en 90-98% sin p'' @ e_acute @ ''rdida de funcionalidad.'',
     ''<b>3. ROI Excepcional:</b> Inversi'' @ o_acute @ ''n de $30,010 con payback en 0.82 meses y ROI anual de 1,458% en deployment mediano.'',
     ''<b>4. Implementaci'' @ o_acute @ ''n Gradual:</b> Plan de 10 semanas con 5 fases, rollback procedures, y m'' @ e_acute @ ''tricas de '' @ e_acute @ ''xito por fase.'',
     ''<b>5. Impacto Cuantificado:</b> Reducci'' @ o_acute @ ''n del 90% en tokens, 93% en latencia, 3x en throughput, y $437,400/a'' @ n_tilde @ ''o en ahorros.'']"

definition next_steps :: "string list" where
  "next_steps =
    [''<b>Semana 1 (Inmediato):</b> Implementar compression middleware (1 l'' @ i_acute @ ''nea de c'' @ o_acute @ ''digo) + reducir l'' @ i_acute @ ''mites default (maxIterations: 20'' @ arrow_right @ ''5). Ahorro inmediato: 60-75%.'',
     ''<b>Semana 2-3:</b> Implementar Query Delegation Pattern para top 5 herramientas m'' @ a_acute @ ''s costosas (get_revenue_report, get_consolidated_financials, get_attachments, analyze_insurance_pipeline, get_job_analytics).'',
     ''<b>Semana 4-6:</b> Implementar JSONB Field Projection + forzar verbosity='compact' en todas las herramientas.'',
     ''<b>Mes 2-3:</b> Ejecutar plan completo de 10 semanas con todas las 5 fases.'']"

definition risks :: "string list" where
  "risks =
    [''<b>Riesgo 1 - Breaking Changes:</b> Mitigaci'' @ o_acute @ ''n: Backward compatibility middleware + opt-in gradual.'',
     ''<b>Riesgo 2 - Complejidad T'' @ e_acute @ ''cnica:</b> Mitigaci'' @ o_acute @ ''n: Plan por fases con rollback procedures.'',
     ''<b>Riesgo 3 - Testing Exhaustivo:</b> Mitigaci'' @ o_acute @ ''n: Unit tests >80% coverage + E2E tests + staging.'',
     ''<b>Riesgo 4 - Resistencia al Cambio:</b> Mitigaci'' @ o_acute @ ''n: Documentaci'' @ o_acute @ ''n clara + ejemplos de c'' @ o_acute @ ''digo + capacitaci'' @ o_acute @ ''n.'']"

definition final_note :: "string" where
  "final_note =
    ''\<newline>''
    @ ''        <para alignment=\"center\">\<newline>''
    @ ''        <b>Este reporte t'' @ e_acute @ ''cnico ha sido generado mediante an'' @ a_acute @ ''lisis profundo con 4 agentes especializados\<newline>''
    @ ''        (Architect Review, Performance Engineer, Database Optimizer, Backend Architect) utilizando\<newline>''
    @ ''        AI insights y metodolog'' @ i_acute @ ''as enterprise-grade.</b>\<newline>''
    @ ''        </para>\<newline>''
    @ ''        ''"

definition conclusions_blocks :: "new_flowable list" where
  "conclusions_blocks =
      [Para (''CONCLUSIONES Y PR'' @ O_acute @ ''XIMOS PASOS'') ''Section'',
       Para ''Conclusiones Principales:'' ''Subsection'']
    @ for_each conclusions (\<lambda>conclusion.
        [Para conclusion ''BodyText'',
         Flow (Spacer 1 10)])
    @ [Flow (Spacer 1 15),
       Para (''Pr'' @ o_acute @ ''ximos Pasos Recomendados:'') ''Subsection'']
    @ for_each next_steps (\<lambda>step.
        [Para step ''BodyText'',
         Flow (Spacer 1 8)])
    @ [Flow (Spacer 1 15),
       Para (''Riesgos Identificados y Mitigaci'' @ o_acute @ ''n:'') ''Subsection'']
    @ for_each risks (\<lambda>risk.
        [Para risk ''BodyText'',
         Flow (Spacer 1 8)])
    @ [Flow (Spacer 1 20),
       Para final_note ''BodyText'']"

subsection \<open>The section builders\<close>

definition add_cover_page :: "datetime \<Rightarrow> stmt" where
  "add_cover_page now = seq (map story_append (cover_page_blocks now))"

definition add_executive_summary :: stmt where
  "add_executive_summary = seq (map story_append executive_summary_blocks)"

definition add_technical_analysis :: stmt where
  "add_technical_analysis = seq (map story_append technical_analysis_blocks)"

definition add_optimization_strategies :: stmt where
  "add_optimization_strategies = seq (map story_append optimization_strategies_blocks)"

definition add_implementation_plan :: stmt where
  "add_implementation_plan = seq (map story_append implementation_plan_blocks)"

definition add_roi_analysis :: stmt where
  "add_roi_analysis = seq (map story_append roi_analysis_blocks)"

definition add_conclusions :: stmt where
  "add_conclusions = seq (map story_append conclusions_blocks)"

subsection \<open>A builder by name\<close>

datatype report_section =
    CoverPage
  | ExecutiveSummary
  | TechnicalAnalysis
  | OptimizationStrategies
  | ImplementationPlan
  | RoiAnalysis
  | Conclusions

text \<open>
  One invocation of a builder: the method, and what \<open>datetime.now()\<close> reads during the
  call (only \<open>add_cover_page\<close> reads the clock).
\<close>

fun add_section :: "datetime \<Rightarrow> report_section \<Rightarrow> stmt" where
  "add_section now CoverPage = add_cover_page now"
| "add_section now ExecutiveSummary = add_executive_summary"
| "add_section now TechnicalAnalysis = add_technical_analysis"
| "add_section now OptimizationStrategies = add_optimization_strategies"
| "add_section now ImplementationPlan = add_implementation_plan"
| "add_section now RoiAnalysis = add_roi_analysis"
| "add_section now Conclusions = add_conclusions"

fun section_blocks :: "datetime \<Rightarrow> report_section \<Rightarrow> new_flowable list" where
  "section_blocks now CoverPage = cover_page_blocks now"
| "section_blocks now ExecutiveSummary = executive_summary_blocks"
| "section_blocks now TechnicalAnalysis = technical_analysis_blocks"
| "section_blocks now OptimizationStrategies = optimization_strategies_blocks"
| "section_blocks now ImplementationPlan = implementation_plan_blocks"
| "section_blocks now RoiAnalysis = roi_analysis_blocks"
| "section_blocks now Conclusions = conclusions_blocks"

definition invocations :: "(report_section \<times> datetime) list \<Rightarrow> stmt" where
  "invocations invs = seq (map (\<lambda>(s, now). add_section now s) invs)"

section \<open>\<open>generate\<close>\<close>

text \<open>
  What \<open>generate\<close> reads from and does to the world outside the generator:
  \<^item> \<open>clock\<close>: the reading of \<open>datetime.now()\<close>;
  \<^item> \<open>stdout_print\<close>: \<open>print(line)\<close>, the exception it raises if any (an output stream
    that cannot encode the line raises \<open>UnicodeEncodeError\<close>);
  \<^item> \<open>doc_build\<close>: the rendering collaborator, \<open>self.doc.build(self.story)\<close>: the
    exception it raises if any, and the list as it leaves it (the list is passed by
    reference, so the collaborator can change it; the library's \<open>build\<close> removes the
    flowables it lays out);
  \<^item> \<open>path_getsize\<close>: \<open>os.path.getsize\<close>, the size in bytes or its exception.
\<close>

record env =
  clock :: datetime
  stdout_print :: "string \<Rightarrow> error option"
  doc_build :: "doc_template \<Rightarrow> flowable list \<Rightarrow> error option \<times> flowable list"
  path_getsize :: "string \<Rightarrow> error + nat"

text \<open>
  \<open>f"{n / 1024:.2f}"\<close> for a size of \<open>n\<close> bytes: \<open>n / 1024\<close> is exact in binary floating
  point (for \<open>n < 2 ^ 53\<close>), and the format rounds it to hundredths, ties to even.
\<close>

definition format_kb :: "nat \<Rightarrow> string" where
  "format_kb n =
     (let q = (n * 100) div 1024;
          r = (n * 100) mod 1024;
          h = (if 512 < r \<or> (r = 512 \<and> odd q) then q + 1 else q)
      in decimal (h div 100) @ ''.'' @ pad2 (h mod 100))"

text \<open>
  What a call of \<open>generate\<close> leaves: the file name returned or the exception raised, the
  generator, the lines printed, and the calls of \<open>doc.build\<close> made (template and story
  handed over).
\<close>

record outcome =
  returned :: "error + string"
  self :: generator
  printed :: "string list"
  built :: "(doc_template \<times> flowable list) list"

definition add_sections :: "datetime \<Rightarrow> stmt" where
  "add_sections now = seq
     [add_cover_page now,
      add_executive_summary,
      add_technical_analysis,
      add_optimization_strategies,
      add_implementation_plan,
      add_roi_analysis,
      add_conclusions]"

definition line_start :: "generator \<Rightarrow> string" where
  "line_start g = ''Generando reporte t'' @ e_acute @ ''cnico especializado: '' @ filename g"

definition line_done :: "generator \<Rightarrow> string" where
  "line_done g = check_mark @ '' Reporte generado exitosamente: '' @ filename g"

definition line_size :: "nat \<Rightarrow> string" where
  "line_size n = page_facing_up @ '' Tama'' @ n_tilde @ ''o: '' @ format_kb n @ '' KB''"

definition generate :: "env \<Rightarrow> generator \<Rightarrow> outcome" where
  "generate world g =
     (case stdout_print world (line_start g) of
        Some e \<Rightarrow> \<lparr>returned = Inl e, self = g, printed = [], built = []\<rparr>
      | None \<Rightarrow>
     (case add_sections (clock world) g of
        (Some e, g1) \<Rightarrow>
          \<lparr>returned = Inl e, self = g1, printed = [line_start g], built = []\<rparr>
      | (None, g1) \<Rightarrow>
     (case doc_build world (doc g1) (story g1) of
        (Some e, rest) \<Rightarrow>
          \<lparr>returned = Inl e, self = g1\<lparr>story := rest\<rparr>, printed = [line_start g],
           built = [(doc g1, story g1)]\<rparr>
      | (None, rest) \<Rightarrow>
     (let g2 = g1\<lparr>story := rest\<rparr>; calls = [(doc g1, story g1)] in
      case stdout_print world (line_done g2) of
        Some e \<Rightarrow>
          \<lparr>returned = Inl e, self = g2, printed = [line_start g], built = calls\<rparr>
      | None \<Rightarrow>
     (case path_getsize world (filename g2) of
        Inl e \<Rightarrow>
          \<lparr>returned = Inl e, self = g2, printed = [line_start g, line_done g2], built = calls\<rparr>
      | Inr n \<Rightarrow>
     (case stdout_print world (line_size n) of
        Some e \<Rightarrow>
          \<lparr>returned = Inl e, self = g2, printed = [line_start g, line_done g2], built = calls\<rparr>
      | None \<Rightarrow>
          \<lparr>returned = Inr (filename g2), self = g2,
           printed = [line_start g, line_done g2, line_size n], built = calls\<rparr>))))))"

section \<open>What a run of appends adds, as a function of the style sheet\<close>

fun resolve :: "stylesheet \<Rightarrow> new_flowable \<Rightarrow> error + flowable" where
  "resolve ss (Flow f) = Inr f"
| "resolve ss (Para text key) =
     (case stylesheet_getitem ss key of
        Inl e \<Rightarrow> Inl e
      | Inr s \<Rightarrow> Inr (Paragraph text s))"

text \<open>The flowables appended before the first failing lookup, and that lookup's exception.\<close>

fun resolve_all :: "stylesheet \<Rightarrow> new_flowable list \<Rightarrow> flowable list \<times> error option" where
  "resolve_all ss [] = ([], None)"
| "resolve_all ss (x # xs) =
     (case resolve ss x of
        Inl e \<Rightarrow> ([], Some e)
      | Inr f \<Rightarrow> (f # fst (resolve_all ss xs), snd (resolve_all ss xs)))"

fun style_keys :: "new_flowable list \<Rightarrow> string list" where
  "style_keys [] = []"
| "style_keys (Para text key # xs) = key # style_keys xs"
| "style_keys (Flow f # xs) = style_keys xs"

definition referenced_styles :: "string list" where
  "referenced_styles =
     [''CustomTitle'', ''CustomSubtitle'', ''Section'', ''Subsection'',
      ''Highlight'', ''Metric'', ''BodyText'', ''Code'']"

definition custom_styles :: "string list" where
  "custom_styles =
     [''CustomTitle'', ''CustomSubtitle'', ''Section'', ''Subsection'',
      ''CustomCode'', ''Highlight'', ''Metric'']"

definition has_style :: "stylesheet \<Rightarrow> string \<Rightarrow> bool" where
  "has_style ss key = (case stylesheet_getitem ss key of Inl e \<Rightarrow> False | Inr s \<Rightarrow> True)"

definition resolves :: "stylesheet \<Rightarrow> bool" where
  "resolves ss = list_all (has_style ss) referenced_styles"

text \<open>
  What \<open>_setup_custom_styles\<close> needs of the library's sample sheet: the parents it names
  are there, and none of the names it registers is taken, as a name or as an alias.
\<close>

definition is_free :: "stylesheet \<Rightarrow> string \<Rightarrow> bool" where
  "is_free ss key = (map_of (byName ss) key = None \<and> map_of (byAlias ss) key = None)"

definition sample_ok :: "stylesheet \<Rightarrow> bool" where
  "sample_ok ss =
     (list_all (has_style ss) [''Heading1'', ''Heading2'', ''Heading3'', ''Normal'', ''BodyText'']
      \<and> list_all (is_free ss) custom_styles)"

text \<open>
  The names, aliases and parents of the library's sample sheet (\<open>getSampleStyleSheet()\<close>),
  in the order the library adds them; the attributes of the built-in styles play no
  part here and are left out.
\<close>

definition builtin :: "string \<Rightarrow> string option \<Rightarrow> paragraph_style" where
  "builtin nm par =
     ParagraphStyle nm (map_option (\<lambda>p. ParagraphStyle p None []) par) []"

definition getSampleStyleSheet :: stylesheet where
  "getSampleStyleSheet =
     \<lparr>byName =
        [(''Normal'', builtin ''Normal'' None),
         (''BodyText'', builtin ''BodyText'' (Some ''Normal'')),
         (''Italic'', builtin ''Italic'' (Some ''BodyText'')),
         (''Heading1'', builtin ''Heading1'' (Some ''Normal'')),
         (''Title'', builtin ''Title'' (Some ''Normal'')),
         (''Heading2'', builtin ''Heading2'' (Some ''Normal'')),
         (''Heading3'', builtin ''Heading3'' (Some ''Normal'')),
         (''Heading4'', builtin ''Heading4'' (Some ''Normal'')),
         (''Heading5'', builtin ''Heading5'' (Some ''Normal'')),
         (''Heading6'', builtin ''Heading6'' (Some ''Normal'')),
         (''Bullet'', builtin ''Bullet'' (Some ''Normal'')),
         (''Definition'', builtin ''Definition'' (Some ''Normal'')),
         (''Code'', builtin ''Code'' (Some ''Normal'')),
         (''UnorderedList'', builtin ''UnorderedList'' (Some ''Normal'')),
         (''OrderedList'', builtin ''OrderedList'' (Some ''Normal''))],
      byAlias =
        [(''h1'', builtin ''Heading1'' (Some ''Normal'')),
         (''title'', builtin ''Title'' (Some ''Normal'')),
         (''h2'', builtin ''Heading2'' (Some ''Normal'')),
         (''h3'', builtin ''Heading3'' (Some ''Normal'')),
         (''h4'', builtin ''Heading4'' (Some ''Normal'')),
         (''h5'', builtin ''Heading5'' (Some ''Normal'')),
         (''h6'', builtin ''Heading6'' (Some ''Normal'')),
         (''bu'', builtin ''Bullet'' (Some ''Normal'')),
         (''df'', builtin ''Definition'' (Some ''Normal'')),
         (''ul'', builtin ''UnorderedList'' (Some ''Normal'')),
         (''ol'', builtin ''OrderedList'' (Some ''Normal''))]\<rparr>"

section \<open>Notions used in the statements\<close>

text \<open>
  The number of flowables each builder appends, the flowables a builder or the whole run
  appends for a given style sheet, what a statement adds to the story, and the tables and
  paragraphs among a list of flowables.
\<close>

fun block_count :: "report_section \<Rightarrow> nat" where
  "block_count CoverPage = 8"
| "block_count ExecutiveSummary = 30"
| "block_count TechnicalAnalysis = 22"
| "block_count OptimizationStrategies = 26"
| "block_count ImplementationPlan = 50"
| "block_count RoiAnalysis = 19"
| "block_count Conclusions = 34"

definition all_sections :: "report_section list" where
  "all_sections =
     [CoverPage, ExecutiveSummary, TechnicalAnalysis, OptimizationStrategies,
      ImplementationPlan, RoiAnalysis, Conclusions]"

definition section_flowables :: "stylesheet \<Rightarrow> datetime \<Rightarrow> report_section \<Rightarrow> flowable list" where
  "section_flowables ss now s = fst (resolve_all ss (section_blocks now s))"

definition report_flowables :: "stylesheet \<Rightarrow> datetime \<Rightarrow> flowable list" where
  "report_flowables ss now = concat (map (section_flowables ss now) all_sections)"

definition appended_by :: "stmt \<Rightarrow> generator \<Rightarrow> flowable list" where
  "appended_by s g = drop (length (story g)) (story (snd (s g)))"

fun is_table :: "flowable \<Rightarrow> bool" where
  "is_table (StyledTable rows colWidths cmds) = True"
| "is_table f = False"

fun table_data :: "flowable \<Rightarrow> string list list" where
  "table_data (StyledTable rows colWidths cmds) = rows"
| "table_data f = []"

fun table_widths :: "flowable \<Rightarrow> rat list" where
  "table_widths (StyledTable rows colWidths cmds) = colWidths"
| "table_widths f = []"

fun table_cmds :: "flowable \<Rightarrow> table_cmd list" where
  "table_cmds (StyledTable rows colWidths cmds) = cmds"
| "table_cmds f = []"

definition declared_tables :: "flowable list" where
  "declared_tables =
     [summary_table, impact_table, stack_table, scenarios_table, timeline_table,
      costs_table, roi_table]"

definition empty_sheet :: stylesheet where
  "empty_sheet = \<lparr>byName = [], byAlias = []\<rparr>"

definition tables_of :: "flowable list \<Rightarrow> flowable list" where
  "tables_of fs = filter is_table fs"

fun flow_items :: "new_flowable list \<Rightarrow> flowable list" where
  "flow_items [] = []"
| "flow_items (Para body key # xs) = flow_items xs"
| "flow_items (Flow f # xs) = f # flow_items xs"

definition rectangular :: "flowable \<Rightarrow> bool" where
  "rectangular t = list_all (\<lambda>row. length row = length (table_widths t)) (table_data t)"

definition invoked_blocks :: "(report_section \<times> datetime) list \<Rightarrow> new_flowable list" where
  "invoked_blocks invs = concat (map (\<lambda>(s, now). section_blocks now s) invs)"

fun is_paragraph :: "flowable \<Rightarrow> bool" where
  "is_paragraph (Paragraph body st) = True"
| "is_paragraph f = False"

section \<open>Example inputs\<close>

text \<open>
  Two dates, a path in a directory that does not exist, and five worlds:
  \<^item> \<open>quiet_world\<close>: every call succeeds and \<open>build\<close> leaves the story empty;
  \<^item> \<open>keeping_world\<close>: every call succeeds and \<open>build\<close> leaves the story as it is;
  \<^item> \<open>ascii_world\<close>: the output stream encodes ASCII only, so \<open>print\<close> raises on a line
    with a byte above 127;
  \<^item> \<open>vanished_world\<close>: \<open>build\<close> succeeds and the size query then raises;
  \<^item> \<open>unwritable_world\<close>: \<open>build\<close> raises, the output file cannot be written.
\<close>

definition example_date :: datetime where
  "example_date = \<lparr>year = 2025, month = October, day = 7\<rparr>"

definition next_day :: datetime where
  "next_day = \<lparr>year = 2025, month = October, day = 8\<rparr>"

definition quiet_world :: "datetime \<Rightarrow> env" where
  "quiet_world d =
     \<lparr>clock = d,
      stdout_print = (\<lambda>line. None),
      doc_build = (\<lambda>template fs. (None, [])),
      path_getsize = (\<lambda>path. Inr 4096)\<rparr>"

definition keeping_world :: "datetime \<Rightarrow> env" where
  "keeping_world d =
     \<lparr>clock = d,
      stdout_print = (\<lambda>line. None),
      doc_build = (\<lambda>template fs. (None, fs)),
      path_getsize = (\<lambda>path. Inr 4096)\<rparr>"

definition ascii_world :: env where
  "ascii_world =
     \<lparr>clock = example_date,
      stdout_print = (\<lambda>line. if list_all (\<lambda>c. of_char c < (128 :: nat)) line then None
                            else Some (UnicodeEncodeError ''ascii'')),
      doc_build = (\<lambda>template fs. (None, [])),
      path_getsize = (\<lambda>path. Inr 4096)\<rparr>"

definition vanished_world :: env where
  "vanished_world =
     \<lparr>clock = example_date,
      stdout_print = (\<lambda>line. None),
      doc_build = (\<lambda>template fs. (None, [])),
      path_getsize = (\<lambda>path. Inl (OSError ''No such file or directory''))\<rparr>"

definition unwritable_world :: env where
  "unwritable_world =
     \<lparr>clock = example_date,
      stdout_print = (\<lambda>line. None),
      doc_build = (\<lambda>template fs. (Some (OSError ''No such file or directory''), [])),
      path_getsize = (\<lambda>path. Inl (OSError ''No such file or directory''))\<rparr>"

definition bad_path :: string where
  "bad_path = ''/no/such/dir/report.pdf''"

section \<open>Lemmas\<close>

lemma story_append_Flow: "story_append (Flow f) g = (None, g\<lparr>story := story g @ [f]\<rparr>)"
  by (simp add: story_append_def)

lemma story_append_Para:
  "story_append (Para body key) g =
     (case stylesheet_getitem (styles g) key of
        Inl e \<Rightarrow> (Some e, g)
      | Inr s \<Rightarrow> (None, g\<lparr>story := story g @ [Paragraph body s]\<rparr>))"
  by (simp add: story_append_def)

lemma seq_appends:
  "seq (map story_append xs) g =
     (snd (resolve_all (styles g) xs), g\<lparr>story := story g @ fst (resolve_all (styles g) xs)\<rparr>)"
proof (induction xs arbitrary: g)
  case Nil
  then show ?case by simp
next
  case (Cons x xs)
  show ?case
  proof (cases x)
    case (Para body key)
    then show ?thesis
      by (cases "stylesheet_getitem (styles g) key") (simp_all add: story_append_Para Cons.IH)
  next
    case (Flow f)
    then show ?thesis by (simp add: story_append_Flow Cons.IH)
  qed
qed

lemma resolve_all_append:
  "resolve_all ss (xs @ ys) =
     (case snd (resolve_all ss xs) of
        Some e \<Rightarrow> resolve_all ss xs
      | None \<Rightarrow> (fst (resolve_all ss xs) @ fst (resolve_all ss ys), snd (resolve_all ss ys)))"
  by (induction xs) (auto split: sum.splits option.splits simp: prod_eq_iff)

lemma style_keys_append: "style_keys (xs @ ys) = style_keys xs @ style_keys ys"
  by (induction xs rule: style_keys.induct) simp_all

lemma style_keys_for_each:
  "set (style_keys (for_each xs body)) = (\<Union>x \<in> set xs. set (style_keys (body x)))"
  by (induction xs) (simp_all add: for_each_def style_keys_append)

lemma resolve_all_ok:
  "\<forall>k \<in> set (style_keys xs). has_style ss k \<Longrightarrow>
     snd (resolve_all ss xs) = None \<and> length (fst (resolve_all ss xs)) = length xs"
proof (induction xs rule: style_keys.induct)
  case 1
  then show ?case by simp
next
  case (2 body key xs)
  then show ?case by (auto simp: has_style_def split: sum.splits)
next
  case (3 f xs)
  then show ?case by simp
qed

lemma add_section_appends:
  "add_section now s g =
     (snd (resolve_all (styles g) (section_blocks now s)),
      g\<lparr>story := story g @ fst (resolve_all (styles g) (section_blocks now s))\<rparr>)"
  by (cases s)
    (simp_all add: seq_appends add_cover_page_def add_executive_summary_def
      add_technical_analysis_def add_optimization_strategies_def add_implementation_plan_def
      add_roi_analysis_def add_conclusions_def)

lemma length_for_each_pair:
  "length (for_each xs (\<lambda>x. [a x, b x])) = 2 * length xs"
  by (induction xs) (simp_all add: for_each_def)

lemma length_for_each_single:
  "length (for_each xs (\<lambda>x. [a x])) = length xs"
  by (induction xs) (simp_all add: for_each_def)

lemma list_lengths:
  "length problems = 6" "length recommendations = 4" "length transmission_issues = 3"
  "length additional_strategies = 3" "length phase1_deliverables = 4"
  "length phase2_deliverables = 4" "length phase3_deliverables = 4"
  "length phase4_deliverables = 4" "length phase5_deliverables = 4"
  "length intangible_benefits = 4" "length conclusions = 5" "length next_steps = 4"
  "length risks = 4"
  by (simp_all add: problems_def recommendations_def transmission_issues_def
      additional_strategies_def phase1_deliverables_def phase2_deliverables_def
      phase3_deliverables_def phase4_deliverables_def phase5_deliverables_def
      intangible_benefits_def conclusions_def next_steps_def risks_def)

lemma length_section_blocks: "length (section_blocks now s) = block_count s"
  by (cases s)
    (simp_all add: cover_page_blocks_def executive_summary_blocks_def
      technical_analysis_blocks_def optimization_strategies_blocks_def
      implementation_plan_blocks_def roi_analysis_blocks_def conclusions_blocks_def
      length_for_each_pair length_for_each_single list_lengths)

lemma keys_section_blocks:
  "set (style_keys (section_blocks now s)) \<subseteq> set referenced_styles"
  by (cases s)
    (auto simp: cover_page_blocks_def executive_summary_blocks_def
      technical_analysis_blocks_def optimization_strategies_blocks_def
      implementation_plan_blocks_def roi_analysis_blocks_def conclusions_blocks_def
      style_keys_append style_keys_for_each referenced_styles_def)

lemma resolves_keys:
  "resolves ss \<Longrightarrow> set (style_keys xs) \<subseteq> set referenced_styles \<Longrightarrow>
     \<forall>k \<in> set (style_keys xs). has_style ss k"
  by (auto simp: resolves_def list_all_iff)

lemma section_resolved:
  assumes "resolves ss"
  shows "snd (resolve_all ss (section_blocks now s)) = None"
    and "length (section_flowables ss now s) = block_count s"
  using resolve_all_ok [OF resolves_keys [OF assms keys_section_blocks], of now s]
  by (simp_all add: section_flowables_def length_section_blocks)

lemma add_section_resolved:
  "resolves (styles g) \<Longrightarrow>
     add_section now s g = (None, g\<lparr>story := story g @ section_flowables (styles g) now s\<rparr>)"
  by (simp add: add_section_appends section_resolved(1) section_flowables_def)

lemma invocations_Nil: "invocations [] g = (None, g)"
  by (simp add: invocations_def)

lemma invocations_Cons:
  "invocations ((s, now) # invs) g =
     (case add_section now s g of
        (Some e, g') \<Rightarrow> (Some e, g')
      | (None, g') \<Rightarrow> invocations invs g')"
  unfolding invocations_def by simp

lemma invocations_resolved:
  "resolves (styles g) \<Longrightarrow>
     invocations invs g =
       (None, g\<lparr>story := story g @
          concat (map (\<lambda>(s, now). section_flowables (styles g) now s) invs)\<rparr>)"
proof (induction invs arbitrary: g)
  case Nil
  then show ?case by (simp add: invocations_Nil)
next
  case (Cons inv invs)
  obtain s now where inv: "inv = (s, now)" by (cases inv)
  let ?g = "g\<lparr>story := story g @ section_flowables (styles g) now s\<rparr>"
  have "resolves (styles ?g)" using Cons.prems by simp
  from Cons.IH [OF this] Cons.prems show ?case
    by (simp add: inv invocations_Cons add_section_resolved)
qed

lemma add_sections_invocations:
  "add_sections now = invocations (map (\<lambda>s. (s, now)) all_sections)"
  by (simp add: add_sections_def invocations_def all_sections_def)

lemma add_sections_resolved:
  "resolves (styles g) \<Longrightarrow>
     add_sections now g = (None, g\<lparr>story := story g @ report_flowables (styles g) now\<rparr>)"
  by (simp add: add_sections_invocations invocations_resolved report_flowables_def comp_def)

lemma length_report_flowables:
  "resolves ss \<Longrightarrow> length (report_flowables ss now) = 189"
  by (simp add: report_flowables_def all_sections_def section_resolved(2))

text \<open>\<open>generate\<close>, case by case, when every style the builders name is in the sheet.\<close>

lemma generate_resolved:
  assumes "resolves (styles g)"
  shows "generate world g =
     (let S = story g @ report_flowables (styles g) (clock world) in
      case stdout_print world (line_start g) of
        Some e \<Rightarrow> \<lparr>returned = Inl e, self = g, printed = [], built = []\<rparr>
      | None \<Rightarrow>
     (case doc_build world (doc g) S of
        (Some e, rest) \<Rightarrow>
          \<lparr>returned = Inl e, self = g\<lparr>story := rest\<rparr>, printed = [line_start g],
           built = [(doc g, S)]\<rparr>
      | (None, rest) \<Rightarrow>
     (case stdout_print world (line_done g) of
        Some e \<Rightarrow>
          \<lparr>returned = Inl e, self = g\<lparr>story := rest\<rparr>, printed = [line_start g],
           built = [(doc g, S)]\<rparr>
      | None \<Rightarrow>
     (case path_getsize world (filename g) of
        Inl e \<Rightarrow>
          \<lparr>returned = Inl e, self = g\<lparr>story := rest\<rparr>,
           printed = [line_start g, line_done g], built = [(doc g, S)]\<rparr>
      | Inr n \<Rightarrow>
     (case stdout_print world (line_size n) of
        Some e \<Rightarrow>
          \<lparr>returned = Inl e, self = g\<lparr>story := rest\<rparr>,
           printed = [line_start g, line_done g], built = [(doc g, S)]\<rparr>
      | None \<Rightarrow>
          \<lparr>returned = Inr (filename g), self = g\<lparr>story := rest\<rparr>,
           printed = [line_start g, line_done g, line_size n], built = [(doc g, S)]\<rparr>)))))"
  by (simp add: generate_def add_sections_resolved [OF assms] Let_def line_done_def
      split: option.splits prod.splits sum.splits)

subsection \<open>Initialization\<close>

lemma has_style_iff: "has_style ss k \<longleftrightarrow> \<not> is_free ss k"
  by (auto simp: has_style_def is_free_def stylesheet_getitem_def split: option.splits)

lemma add_style_ok:
  assumes "has_style (styles g) par" and "is_free (styles g) nm"
  shows "\<exists>st. add_style nm par kw g =
           (None, g\<lparr>styles := (styles g)\<lparr>byName := byName (styles g) @ [(nm, st)]\<rparr>\<rparr>)"
proof -
  obtain p where p: "stylesheet_getitem (styles g) par = Inr p"
    using assms(1) by (auto simp: has_style_def split: sum.splits)
  show ?thesis
    using assms(2)
    by (auto simp: add_style_def p stylesheet_add_def is_free_def)
qed

lemma is_free_extend:
  "is_free (ss\<lparr>byName := byName ss @ [(nm, st)]\<rparr>) k \<longleftrightarrow> is_free ss k \<and> k \<noteq> nm"
  by (auto simp: is_free_def map_add_def split: option.splits)

lemma add_styles_ok:
  assumes "\<forall>c \<in> set specs. has_style (styles g) (fst (snd c))"
    and "\<forall>c \<in> set specs. is_free (styles g) (fst c)"
    and "distinct (map fst specs)"
  shows "\<exists>g'. seq (map (\<lambda>c. add_style (fst c) (fst (snd c)) (snd (snd c))) specs) g = (None, g')
           \<and> filename g' = filename g \<and> doc g' = doc g \<and> story g' = story g
           \<and> (\<forall>k. is_free (styles g') k \<longleftrightarrow> is_free (styles g) k \<and> k \<notin> fst ` set specs)"
  using assms
proof (induction specs arbitrary: g)
  case Nil
  then show ?case by simp
next
  case (Cons c specs)
  obtain st where st: "add_style (fst c) (fst (snd c)) (snd (snd c)) g =
      (None, g\<lparr>styles := (styles g)\<lparr>byName := byName (styles g) @ [(fst c, st)]\<rparr>\<rparr>)"
    using add_style_ok [of g "fst (snd c)" "fst c" "snd (snd c)"] Cons.prems by auto
  let ?g = "g\<lparr>styles := (styles g)\<lparr>byName := byName (styles g) @ [(fst c, st)]\<rparr>\<rparr>"
  have 1: "\<forall>d \<in> set specs. has_style (styles ?g) (fst (snd d))"
    using Cons.prems(1) by (auto simp: has_style_iff is_free_extend)
  have 2: "\<forall>d \<in> set specs. is_free (styles ?g) (fst d)"
  proof
    fix d assume d: "d \<in> set specs"
    then have "fst d \<in> fst ` set specs" by (rule imageI)
    moreover have "fst c \<notin> fst ` set specs" using Cons.prems(3) by simp
    ultimately have "fst d \<noteq> fst c" by metis
    moreover have "is_free (styles g) (fst d)" using Cons.prems(2) d by simp
    ultimately show "is_free (styles ?g) (fst d)" by (simp add: is_free_extend)
  qed
  have 3: "distinct (map fst specs)"
    using Cons.prems(3) by simp
  from Cons.IH [OF 1 2 3] obtain g' where g':
    "seq (map (\<lambda>c. add_style (fst c) (fst (snd c)) (snd (snd c))) specs) ?g = (None, g')"
    "filename g' = filename g" "doc g' = doc g" "story g' = story g"
    "\<forall>k. is_free (styles g') k \<longleftrightarrow> is_free (styles ?g) k \<and> k \<notin> fst ` set specs"
    by auto
  show ?case
    using g' by (auto simp: st is_free_extend)
qed

lemma setup_custom_styles_specs:
  "setup_custom_styles =
     seq (map (\<lambda>c. add_style (fst c) (fst (snd c)) (snd (snd c))) custom_specs)"
  by (simp add: setup_custom_styles_def case_prod_unfold)

lemma custom_specs_names: "map fst custom_specs = custom_styles"
  by (simp add: custom_specs_def custom_styles_def)

lemma custom_specs_parents:
  "set (map (\<lambda>c. fst (snd c)) custom_specs) \<subseteq>
     set [''Heading1'', ''Heading2'', ''Heading3'', ''Normal'', ''BodyText'']"
  by (simp add: custom_specs_def)

lemma init_ok:
  assumes "sample_ok sample"
  shows "\<exists>g. init sample fn = Inr g \<and> filename g = fn \<and> story g = []
           \<and> doc g = SimpleDocTemplate fn letter (75/100 * inch) (75/100 * inch)
                 (75/100 * inch) (75/100 * inch)
           \<and> (\<forall>k. has_style (styles g) k \<longleftrightarrow> has_style sample k \<or> k \<in> set custom_styles)"
proof -
  let ?g0 = "\<lparr>filename = fn,
      doc = SimpleDocTemplate fn letter (75/100 * inch) (75/100 * inch) (75/100 * inch) (75/100 * inch),
      styles = sample, story = []\<rparr>"
  have 1: "\<forall>c \<in> set custom_specs. has_style (styles ?g0) (fst (snd c))"
    using assms custom_specs_parents by (auto simp: sample_ok_def list_all_iff)
  have names: "fst ` set custom_specs = set custom_styles"
    using custom_specs_names by (metis set_map)
  have 2: "\<forall>c \<in> set custom_specs. is_free (styles ?g0) (fst c)"
    using assms names by (auto simp: sample_ok_def list_all_iff)
  have 3: "distinct (map fst custom_specs)"
    by (simp add: custom_specs_names custom_styles_def)
  from add_styles_ok [OF 1 2 3] obtain g' where g':
    "setup_custom_styles ?g0 = (None, g')"
    "filename g' = fn" "doc g' = doc ?g0" "story g' = []"
    "\<forall>k. is_free (styles g') k \<longleftrightarrow> is_free sample k \<and> k \<notin> fst ` set custom_specs"
    by (auto simp: setup_custom_styles_specs)
  with names show ?thesis
    by (auto simp: init_def has_style_iff)
qed

lemma init_resolves:
  assumes "sample_ok sample" and "has_style sample ''Code''"
    and "init sample fn = Inr g"
  shows "resolves (styles g)"
proof -
  have "has_style sample ''BodyText''"
    using assms(1) by (simp add: sample_ok_def)
  then show ?thesis
    using init_ok [OF assms(1), of fn] assms(2,3)
    by (auto simp: resolves_def referenced_styles_def custom_styles_def)
qed

lemma sample_sheet_ok: "sample_ok getSampleStyleSheet" "has_style getSampleStyleSheet ''Code''"
  by (simp_all add: sample_ok_def getSampleStyleSheet_def has_style_def stylesheet_getitem_def
      is_free_def custom_styles_def)

lemma appended_by_add_section:
  "appended_by (add_section now s) g = fst (resolve_all (styles g) (section_blocks now s))"
  unfolding appended_by_def add_section_appends by simp

subsection \<open>Tables\<close>

lemma flow_items_append: "flow_items (xs @ ys) = flow_items xs @ flow_items ys"
  by (induction xs rule: flow_items.induct) simp_all

lemma tables_of_append: "tables_of (xs @ ys) = tables_of xs @ tables_of ys"
  by (simp add: tables_of_def)

lemma tables_of_simps:
  "tables_of [] = []"
  "tables_of (f # fs) = (if is_table f then f # tables_of fs else tables_of fs)"
  by (simp_all add: tables_of_def)

lemma tables_for_each:
  "(\<And>x. tables_of (flow_items (body x)) = []) \<Longrightarrow> tables_of (flow_items (for_each xs body)) = []"
  by (induction xs) (simp_all add: for_each_def flow_items_append tables_of_append tables_of_simps)

lemma tables_resolve_all:
  "snd (resolve_all ss xs) = None \<Longrightarrow>
     tables_of (fst (resolve_all ss xs)) = tables_of (flow_items xs)"
proof (induction xs rule: flow_items.induct)
  case 1
  then show ?case by simp
next
  case (2 body key xs)
  then show ?case by (auto simp: tables_of_simps split: sum.splits)
next
  case (3 f xs)
  then show ?case by (simp add: tables_of_simps)
qed

lemma tables_resolved_subset:
  "set (tables_of (fst (resolve_all ss xs))) \<subseteq> set (tables_of (flow_items xs))"
proof (induction xs rule: flow_items.induct)
  case 1
  then show ?case by simp
next
  case (2 body key xs)
  then show ?case by (auto simp: tables_of_simps split: sum.splits)
next
  case (3 f xs)
  then show ?case by (auto simp: tables_of_simps)
qed

lemma the_tables:
  "is_table summary_table" "is_table impact_table" "is_table stack_table"
  "is_table scenarios_table" "is_table timeline_table" "is_table costs_table"
  "is_table roi_table"
  "table_data summary_table = summary_data" "table_data impact_table = impact_data"
  "table_data stack_table = stack_data" "table_data scenarios_table = scenarios_data"
  "table_data timeline_table = timeline_data" "table_data costs_table = costs_data"
  "table_data roi_table = roi_data"
  by (simp_all add: summary_table_def impact_table_def stack_table_def scenarios_table_def
      timeline_table_def costs_table_def roi_table_def Table_def)

lemma section_tables:
  "tables_of (flow_items (section_blocks now s)) =
     (case s of
        CoverPage \<Rightarrow> [summary_table]
      | ExecutiveSummary \<Rightarrow> [impact_table]
      | TechnicalAnalysis \<Rightarrow> [stack_table, scenarios_table]
      | OptimizationStrategies \<Rightarrow> []
      | ImplementationPlan \<Rightarrow> [timeline_table]
      | RoiAnalysis \<Rightarrow> [costs_table, roi_table]
      | Conclusions \<Rightarrow> [])"
  by (cases s)
    (simp_all add: cover_page_blocks_def executive_summary_blocks_def
      technical_analysis_blocks_def optimization_strategies_blocks_def
      implementation_plan_blocks_def roi_analysis_blocks_def conclusions_blocks_def
      flow_items_append tables_of_append tables_of_simps tables_for_each the_tables)

lemma section_tables_declared:
  "set (tables_of (flow_items (section_blocks now s))) \<subseteq> set declared_tables"
  unfolding section_tables declared_tables_def by (cases s) simp_all

lemma appended_tables_declared:
  assumes "f \<in> set (appended_by (add_section now s) g)" and "is_table f"
  shows "f \<in> set declared_tables"
proof -
  from assms have "f \<in> set (tables_of (fst (resolve_all (styles g) (section_blocks now s))))"
    by (simp add: appended_by_add_section tables_of_def)
  then show ?thesis
    using tables_resolved_subset section_tables_declared by blast
qed

lemma inline_commands:
  "map (length \<circ> table_cmds) declared_tables = [11, 10, 11, 10, 12, 12, 10]"
  by (simp add: declared_tables_def summary_table_def impact_table_def stack_table_def
      scenarios_table_def timeline_table_def costs_table_def roi_table_def Table_def)

lemma report_tables:
  assumes "resolves ss"
  shows "tables_of (report_flowables ss now) =
     [summary_table, impact_table, stack_table, scenarios_table, timeline_table,
      costs_table, roi_table]"
proof -
  have "tables_of (section_flowables ss now s) = tables_of (flow_items (section_blocks now s))" for s
    using tables_resolve_all [OF section_resolved(1) [OF assms]]
    by (simp add: section_flowables_def)
  then show ?thesis
    by (simp add: report_flowables_def all_sections_def tables_of_append section_tables)
qed

lemma data_rows:
  "map length [summary_data, impact_data, stack_data, scenarios_data, timeline_data,
     costs_data, roi_data] = [1 + 6, 1 + 7, 1 + 8, 1 + 5, 1 + 6, 1 + 3, 1 + 3]"
  by (simp add: summary_data_def impact_data_def stack_data_def scenarios_data_def
      timeline_data_def costs_data_def roi_data_def)

lemma tables_rectangular:
  "list_all rectangular
     [summary_table, impact_table, stack_table, scenarios_table, timeline_table,
      costs_table, roi_table]"
  by (simp add: rectangular_def summary_table_def impact_table_def stack_table_def
      scenarios_table_def timeline_table_def costs_table_def roi_table_def Table_def
      summary_data_def impact_data_def stack_data_def scenarios_data_def
      timeline_data_def costs_data_def roi_data_def)

lemma appended_by_add_sections:
  "resolves (styles g) \<Longrightarrow> appended_by (add_sections now) g = report_flowables (styles g) now"
  by (simp add: appended_by_def add_sections_resolved)

subsection \<open>The style names the builders use\<close>

lemma report_keys:
  "set (style_keys (concat (map (section_blocks now) all_sections))) = set referenced_styles"
  by (auto simp: all_sections_def style_keys_append style_keys_for_each referenced_styles_def
      cover_page_blocks_def executive_summary_blocks_def
      technical_analysis_blocks_def optimization_strategies_blocks_def
      implementation_plan_blocks_def roi_analysis_blocks_def conclusions_blocks_def)

subsection \<open>Runs of builders as one run of appends\<close>

lemma invocations_appends:
  "invocations invs g =
     (snd (resolve_all (styles g) (invoked_blocks invs)),
      g\<lparr>story := story g @ fst (resolve_all (styles g) (invoked_blocks invs))\<rparr>)"
proof (induction invs arbitrary: g)
  case Nil
  show ?case by (simp add: invocations_Nil invoked_blocks_def)
next
  case (Cons inv invs)
  obtain s now where inv: "inv = (s, now)" by (cases inv)
  have blocks: "invoked_blocks ((s, now) # invs) = section_blocks now s @ invoked_blocks invs"
    by (simp add: invoked_blocks_def)
  show ?case
    by (cases "snd (resolve_all (styles g) (section_blocks now s))")
      (simp_all add: inv invocations_Cons add_section_appends blocks resolve_all_append Cons.IH)
qed

lemma add_sections_appends:
  "add_sections now g =
     (snd (resolve_all (styles g) (invoked_blocks (map (\<lambda>s. (s, now)) all_sections))),
      g\<lparr>story := story g @
         fst (resolve_all (styles g) (invoked_blocks (map (\<lambda>s. (s, now)) all_sections)))\<rparr>)"
  by (simp add: add_sections_invocations invocations_appends)

lemma generate_frame: "\<exists>fs. self (generate world g) = g\<lparr>story := fs\<rparr>"
proof -
  have g: "g = g\<lparr>story := story g\<rparr>" by simp
  show ?thesis
    unfolding generate_def add_sections_appends
    by (auto simp: Let_def split: option.splits prod.splits sum.splits intro: exI [of _ "story g"])
qed

lemma generate_styles: "styles (self (generate world g)) = styles g"
proof -
  obtain fs where "self (generate world g) = g\<lparr>story := fs\<rparr>"
    using generate_frame by blast
  then show ?thesis by simp
qed

lemma no_paragraph_for_each:
  "(\<And>x. list_all (\<lambda>f. \<not> is_paragraph f) (flow_items (body x))) \<Longrightarrow>
     list_all (\<lambda>f. \<not> is_paragraph f) (flow_items (for_each xs body))"
  by (induction xs) (simp_all add: for_each_def flow_items_append)

lemma tables_not_paragraphs:
  "\<not> is_paragraph summary_table" "\<not> is_paragraph impact_table" "\<not> is_paragraph stack_table"
  "\<not> is_paragraph scenarios_table" "\<not> is_paragraph timeline_table"
  "\<not> is_paragraph costs_table" "\<not> is_paragraph roi_table"
  by (simp_all add: summary_table_def impact_table_def stack_table_def scenarios_table_def
      timeline_table_def costs_table_def roi_table_def Table_def)

lemma section_flows_not_paragraphs:
  "list_all (\<lambda>f. \<not> is_paragraph f) (flow_items (section_blocks now s))"
  by (cases s)
    (simp_all add: cover_page_blocks_def executive_summary_blocks_def
      technical_analysis_blocks_def optimization_strategies_blocks_def
      implementation_plan_blocks_def roi_analysis_blocks_def conclusions_blocks_def
      flow_items_append no_paragraph_for_each tables_not_paragraphs)

lemma resolved_paragraphs_from_sheet:
  "list_all (\<lambda>f. \<not> is_paragraph f) (flow_items xs) \<Longrightarrow>
     f \<in> set (fst (resolve_all ss xs)) \<Longrightarrow> f = Paragraph body st \<Longrightarrow>
     \<exists>key. stylesheet_getitem ss key = Inr st"
proof (induction xs rule: flow_items.induct)
  case 1
  then show ?case by simp
next
  case (2 b key xs)
  then show ?case by (auto split: sum.splits)
next
  case (3 f' xs)
  then show ?case by auto
qed

lemma error_of_add_section:
  "fst (add_section now s g) = snd (resolve_all (styles g) (section_blocks now s))"
  unfolding add_section_appends by simp

lemma appended_by_all_sections:
  "appended_by (add_sections now) g =
     fst (resolve_all (styles g) (invoked_blocks (map (\<lambda>s. (s, now)) all_sections)))"
  unfolding appended_by_def add_sections_appends by simp

lemma error_of_add_sections:
  "fst (add_sections now g) =
     snd (resolve_all (styles g) (invoked_blocks (map (\<lambda>s. (s, now)) all_sections)))"
  unfolding add_sections_appends by simp

lemma sample_generator:
  "\<exists>g. init getSampleStyleSheet fn = Inr g \<and> filename g = fn \<and> story g = []
     \<and> resolves (styles g)"
  using init_ok [OF sample_sheet_ok(1), of fn] init_resolves [OF sample_sheet_ok, of fn]
  by blast

lemma cover_page_members:
  assumes "stylesheet_getitem (styles g) ''CustomTitle'' = Inr st1"
    and "stylesheet_getitem (styles g) ''CustomSubtitle'' = Inr st2"
    and "stylesheet_getitem (styles g) ''BodyText'' = Inr st3"
  shows "Paragraph ''JobNimbus MCP Remote Server'' st1
      \<in> set (appended_by (add_section now CoverPage) g)"
    and "summary_table \<in> set (appended_by (add_section now CoverPage) g)"
  by (simp_all only: appended_by_add_section) (simp_all add: cover_page_blocks_def assms)

lemma strftime_examples:
  "strftime example_date ''%d de %B, %Y'' = ''07 de October, 2025''"
  "strftime next_day ''%d de %B, %Y'' = ''08 de October, 2025''"
  by code_simp+

lemma info_text_differs: "info_text example_date \<noteq> info_text next_day"
  unfolding info_text_def strftime_examples by simp

lemma cover_page_nth:
  assumes "stylesheet_getitem ss ''CustomTitle'' = Inr st1"
    and "stylesheet_getitem ss ''CustomSubtitle'' = Inr st2"
    and "stylesheet_getitem ss ''BodyText'' = Inr st3"
  shows "section_flowables ss d CoverPage ! 6 = Paragraph (info_text d) st3"
  by (simp add: section_flowables_def cover_page_blocks_def assms)

lemma cover_page_differs:
  assumes "resolves ss" and "info_text d1 \<noteq> info_text d2"
  shows "section_flowables ss d1 CoverPage \<noteq> section_flowables ss d2 CoverPage"
proof -
  from assms(1) obtain st1 st2 st3 where
    "stylesheet_getitem ss ''CustomTitle'' = Inr st1"
    "stylesheet_getitem ss ''CustomSubtitle'' = Inr st2"
    "stylesheet_getitem ss ''BodyText'' = Inr st3"
    by (auto simp: resolves_def referenced_styles_def has_style_def split: sum.splits)
  from cover_page_nth [OF this] assms(2) show ?thesis
    by (metis flowable.inject(1))
qed

lemma report_flowables_split:
  "report_flowables ss d =
     section_flowables ss d CoverPage @
     concat (map (section_flowables ss example_date)
       [ExecutiveSummary, TechnicalAnalysis, OptimizationStrategies, ImplementationPlan,
        RoiAnalysis, Conclusions])"
  by (simp add: report_flowables_def all_sections_def section_flowables_def)

lemma report_differs:
  assumes "resolves ss" and "info_text d1 \<noteq> info_text d2"
  shows "report_flowables ss d1 \<noteq> report_flowables ss d2"
  using cover_page_differs [OF assms]
  by (simp add: report_flowables_split)

lemma generate_outcome:
  assumes "resolves (styles g)"
    and S: "S = story g @ report_flowables (styles g) (clock world)"
  shows "(stdout_print world (line_start g) = None \<longrightarrow> built (generate world g) = [(doc g, S)])"
    and "(stdout_print world (line_start g) \<noteq> None \<longrightarrow> built (generate world g) = [])"
    and "(returned (generate world g) = Inr f \<longrightarrow>
            f = filename g \<and> built (generate world g) = [(doc g, S)])"
    and "(returned (generate world g) = Inl e \<longrightarrow>
            (\<exists>line. stdout_print world line = Some e)
            \<or> fst (doc_build world (doc g) S) = Some e
            \<or> path_getsize world (filename g) = Inl e)"
    and "(stdout_print world (line_start g) = None \<longrightarrow>
            fst (doc_build world (doc g) S) = Some e \<longrightarrow>
            returned (generate world g) = Inl e \<and> printed (generate world g) = [line_start g])"
  unfolding S generate_resolved [OF assms(1)]
  by (auto simp: Let_def split: option.splits prod.splits sum.splits)

lemma generate_quiet:
  assumes "resolves (styles g)"
  shows "returned (generate (quiet_world d) g) = Inr (filename g)"
    and "self (generate (quiet_world d) g) = g\<lparr>story := []\<rparr>"
    and "built (generate (quiet_world d) g) = [(doc g, story g @ report_flowables (styles g) d)]"
  by (simp_all add: generate_resolved [OF assms] quiet_world_def Let_def)

lemma generate_keeping:
  assumes "resolves (styles g)"
  shows "returned (generate (keeping_world d) g) = Inr (filename g)"
    and "self (generate (keeping_world d) g) =
           g\<lparr>story := story g @ report_flowables (styles g) d\<rparr>"
    and "built (generate (keeping_world d) g) = [(doc g, story g @ report_flowables (styles g) d)]"
  by (simp_all add: generate_resolved [OF assms] keeping_world_def Let_def)

lemma generate_unwritable:
  assumes "resolves (styles g)"
  shows "returned (generate unwritable_world g) = Inl (OSError ''No such file or directory'')"
    and "built (generate unwritable_world g) =
           [(doc g, story g @ report_flowables (styles g) (clock unwritable_world))]"
    and "printed (generate unwritable_world g) = [line_start g]"
  by (simp_all add: generate_resolved [OF assms] unwritable_world_def Let_def)

section \<open>The claims\<close>

subsection \<open>C1: the builders, the style sheet and the clock\<close>

text \<open>
  C1 says that every section builder is a function of the style registry alone, so that
  two runs of the entry point assemble identical stories. Six builders are; the cover
  page also prints the date read from the clock. As amended: two invocations of the same
  builder on generators with the same style registry raise the same exception (if any)
  and append the same flowables, provided that, for the cover page, the clock reads the
  same date; and two runs of all seven builders at the same date on generators with the
  same registry append the same flowables.
\<close>

theorem builders_depend_on_styles_and_date:
  assumes "styles g1 = styles g2" and "s = CoverPage \<longrightarrow> now1 = now2"
  shows "fst (add_section now1 s g1) = fst (add_section now2 s g2)
     \<and> appended_by (add_section now1 s) g1 = appended_by (add_section now2 s) g2
     \<and> fst (add_sections now1 g1) = fst (add_sections now1 g2)
     \<and> appended_by (add_sections now1) g1 = appended_by (add_sections now1) g2"
proof -
  have "section_blocks now1 s = section_blocks now2 s"
    using assms(2) by (cases s) simp_all
  then show ?thesis
    using assms(1)
    by (simp add: appended_by_add_section error_of_add_section appended_by_all_sections
        error_of_add_sections)
qed

text \<open>Witness for C1 as amended, on the generator the constructor makes.\<close>

theorem builders_depend_on_styles_and_date_witness:
  "\<exists>g. init getSampleStyleSheet default_filename = Inr g
     \<and> appended_by (add_section example_date CoverPage) g =
         appended_by (add_section example_date CoverPage) (g\<lparr>filename := ''other.pdf''\<rparr>)
     \<and> appended_by (add_section example_date Conclusions) g =
         appended_by (add_section next_day Conclusions) (g\<lparr>story := [PageBreak]\<rparr>)"
proof -
  obtain g where g: "init getSampleStyleSheet default_filename = Inr g"
    using sample_generator by blast
  have 1: "styles g = styles (g\<lparr>filename := ''other.pdf''\<rparr>)" by simp
  have 2: "styles g = styles (g\<lparr>story := [PageBreak]\<rparr>)" by simp
  have 3: "CoverPage = CoverPage \<longrightarrow> example_date = example_date" by simp
  have 4: "Conclusions = CoverPage \<longrightarrow> example_date = next_day" by simp
  from builders_depend_on_styles_and_date [OF 1 3] builders_depend_on_styles_and_date [OF 2 4] g
  show ?thesis by blast
qed

text \<open>
  Counterexample to C1 as stated: on one and the same generator, the cover page built on
  7 October 2025 and the one built a day later differ.
\<close>

theorem cover_page_reads_the_clock:
  "\<exists>g. init getSampleStyleSheet default_filename = Inr g
     \<and> appended_by (add_cover_page example_date) g \<noteq> appended_by (add_cover_page next_day) g"
proof -
  obtain g where g: "init getSampleStyleSheet default_filename = Inr g" "story g = []"
      "resolves (styles g)"
    using sample_generator by blast
  have "appended_by (add_cover_page d) g = section_flowables (styles g) d CoverPage" for d
    using appended_by_add_section [of d CoverPage g] by (simp add: section_flowables_def)
  with cover_page_differs [OF g(3) info_text_differs] g(1) show ?thesis
    by auto
qed

subsection \<open>C2: generating twice\<close>

text \<open>
  C2 says that a second render after a successful one is either rejected or produces the
  same output. As amended: after a successful \<open>generate\<close>, a second \<open>generate\<close> on the same
  generator is not rejected by the generator. Whenever its first line is printed it
  appends the seven sections again, after whatever the first build left in the story, and
  hands that story to the collaborator; it fails only where printing, the collaborator or
  the size query fails. When the generator started with an empty story, the first build
  left the story empty and the clock reads the same date, the second call hands over
  exactly what the first did.
\<close>

theorem second_generate_appends_again:
  assumes "resolves (styles g)" and "returned (generate w1 g) = Inr f"
  shows "let g1 = self (generate w1 g);
             S2 = story g1 @ report_flowables (styles g) (clock w2) in
     (stdout_print w2 (line_start g) = None \<longrightarrow> built (generate w2 g1) = [(doc g, S2)])
     \<and> (\<forall>e. returned (generate w2 g1) = Inl e \<longrightarrow>
           (\<exists>line. stdout_print w2 line = Some e)
           \<or> fst (doc_build w2 (doc g) S2) = Some e
           \<or> path_getsize w2 (filename g) = Inl e)
     \<and> (story g = [] \<and> story g1 = [] \<and> clock w2 = clock w1
           \<and> stdout_print w2 (line_start g) = None \<longrightarrow>
         built (generate w2 g1) = built (generate w1 g))"
proof -
  let ?g1 = "self (generate w1 g)"
  obtain fs where fs: "?g1 = g\<lparr>story := fs\<rparr>"
    using generate_frame by blast
  have r1: "resolves (styles ?g1)"
    using assms(1) by (simp add: fs)
  have same: "doc ?g1 = doc g" "filename ?g1 = filename g" "styles ?g1 = styles g"
      "line_start ?g1 = line_start g"
    by (simp_all add: fs line_start_def)
  have first: "built (generate w1 g) = [(doc g, story g @ report_flowables (styles g) (clock w1))]"
    using generate_outcome(3) [OF assms(1) refl, of w1 f] assms(2) by simp
  note second = generate_outcome [OF r1 refl, of w2, unfolded same]
  show ?thesis
    unfolding Let_def using second(1) second(4) first by auto
qed

text \<open>
  Witness for C2 as amended: with a collaborator that consumes the story, a second run on
  the same date hands over what the first did.
\<close>

theorem second_generate_appends_again_witness:
  "\<exists>g. init getSampleStyleSheet default_filename = Inr g \<and> resolves (styles g)
     \<and> returned (generate (quiet_world example_date) g) = Inr default_filename
     \<and> built (generate (quiet_world example_date)
          (self (generate (quiet_world example_date) g))) =
        built (generate (quiet_world example_date) g)"
proof -
  obtain g where g: "init getSampleStyleSheet default_filename = Inr g"
      "filename g = default_filename" "story g = []" "resolves (styles g)"
    using sample_generator by blast
  let ?w = "quiet_world example_date"
  have r: "returned (generate ?w g) = Inr default_filename"
    using generate_quiet(1) [OF g(4)] g(2) by simp
  have q: "story (self (generate ?w g)) = []"
    using generate_quiet(2) [OF g(4)] by simp
  have p: "stdout_print ?w (line_start g) = None"
    by (simp add: quiet_world_def)
  from second_generate_appends_again [OF g(4) r, of ?w] g(3) q p
  have "built (generate ?w (self (generate ?w g))) = built (generate ?w g)"
    unfolding Let_def by blast
  with g r show ?thesis by blast
qed

text \<open>
  Counterexample to C2 as stated. With a collaborator that leaves the story as it is,
  both calls succeed and the second hands over 378 flowables where the first handed over
  189. With a collaborator that consumes the story, both calls succeed and a second call
  on the next day hands over a different story.
\<close>

theorem second_generate_differs:
  "\<exists>g. init getSampleStyleSheet default_filename = Inr g
     \<and> returned (generate (keeping_world example_date) g) = Inr default_filename
     \<and> returned (generate (keeping_world example_date)
          (self (generate (keeping_world example_date) g))) = Inr default_filename
     \<and> map (length \<circ> snd) (built (generate (keeping_world example_date) g)) = [189]
     \<and> map (length \<circ> snd) (built (generate (keeping_world example_date)
          (self (generate (keeping_world example_date) g)))) = [378]
     \<and> returned (generate (quiet_world example_date) g) = Inr default_filename
     \<and> returned (generate (quiet_world next_day)
          (self (generate (quiet_world example_date) g))) = Inr default_filename
     \<and> built (generate (quiet_world next_day) (self (generate (quiet_world example_date) g)))
          \<noteq> built (generate (quiet_world example_date) g)"
proof -
  obtain g where g: "init getSampleStyleSheet default_filename = Inr g"
      "filename g = default_filename" "story g = []" "resolves (styles g)"
    using sample_generator by blast
  let ?k = "self (generate (keeping_world example_date) g)"
  let ?q = "self (generate (quiet_world example_date) g)"
  have k: "?k = g\<lparr>story := report_flowables (styles g) example_date\<rparr>"
    using generate_keeping(2) [OF g(4)] g(3) by simp
  have q: "?q = g\<lparr>story := []\<rparr>"
    using generate_quiet(2) [OF g(4)] by simp
  have rk: "resolves (styles ?k)" and rq: "resolves (styles ?q)"
    using g(4) by (simp_all add: k q)
  have len: "length (report_flowables (styles g) d) = 189" for d
    using length_report_flowables [OF g(4)] .
  have diff: "report_flowables (styles g) next_day \<noteq> report_flowables (styles g) example_date"
    using report_differs [OF g(4) info_text_differs] by metis
  have 1: "returned (generate (keeping_world example_date) g) = Inr default_filename"
    using generate_keeping(1) [OF g(4)] g(2) by simp
  have 2: "returned (generate (keeping_world example_date) ?k) = Inr default_filename"
    using generate_keeping(1) [OF rk] g(2) by (simp add: k)
  have 3: "map (length \<circ> snd) (built (generate (keeping_world example_date) g)) = [189]"
    using generate_keeping(3) [OF g(4)] g(3) by (simp add: len)
  have 4: "map (length \<circ> snd) (built (generate (keeping_world example_date) ?k)) = [378]"
    unfolding generate_keeping(3) [OF rk] by (simp add: k len)
  have 5: "returned (generate (quiet_world example_date) g) = Inr default_filename"
    using generate_quiet(1) [OF g(4)] g(2) by simp
  have 6: "returned (generate (quiet_world next_day) ?q) = Inr default_filename"
    using generate_quiet(1) [OF rq] g(2) by (simp add: q)
  have 7: "built (generate (quiet_world next_day) ?q)
      \<noteq> built (generate (quiet_world example_date) g)"
    unfolding generate_quiet(3) [OF rq] generate_quiet(3) [OF g(4)]
    using diff g(3) by (simp add: q)
  show ?thesis
    by (rule exI [of _ g]) (intro conjI g(1) 1 2 3 4 5 6 7)
qed

subsection \<open>C3: the order of \<open>generate\<close> and its failures\<close>

text \<open>
  C3 says that \<open>generate\<close> runs the seven builders in the fixed order, then hands the story
  to the collaborator exactly once, and fails only if the collaborator fails. As amended,
  for a generator whose registry holds the eight styles the builders name: the builders
  run in the order cover page, executive summary, technical analysis, optimization
  strategies, implementation plan, ROI analysis, conclusions; the collaborator is called
  at most once, with the story of all seven sections, and exactly so whenever
  \<open>generate\<close> returns; and \<open>generate\<close> fails only with the exception of a \<open>print\<close>, of the
  collaborator or of the size query.
\<close>

theorem generate_order_and_failures:
  assumes "resolves (styles g)"
  shows "add_sections now =
       seq (map (add_section now)
         [CoverPage, ExecutiveSummary, TechnicalAnalysis, OptimizationStrategies,
          ImplementationPlan, RoiAnalysis, Conclusions])
     \<and> (let S = story g @ concat (map (section_flowables (styles g) (clock world))
           [CoverPage, ExecutiveSummary, TechnicalAnalysis, OptimizationStrategies,
            ImplementationPlan, RoiAnalysis, Conclusions]) in
        (built (generate world g) = [] \<or> built (generate world g) = [(doc g, S)])
        \<and> (\<forall>f. returned (generate world g) = Inr f \<longrightarrow>
              f = filename g \<and> built (generate world g) = [(doc g, S)])
        \<and> (\<forall>e. returned (generate world g) = Inl e \<longrightarrow>
              (\<exists>line. stdout_print world line = Some e)
              \<or> fst (doc_build world (doc g) S) = Some e
              \<or> path_getsize world (filename g) = Inl e))"
proof -
  have "add_sections now =
       seq (map (add_section now)
         [CoverPage, ExecutiveSummary, TechnicalAnalysis, OptimizationStrategies,
          ImplementationPlan, RoiAnalysis, Conclusions])"
    by (simp add: add_sections_def)
  moreover have "story g @ concat (map (section_flowables (styles g) (clock world))
           [CoverPage, ExecutiveSummary, TechnicalAnalysis, OptimizationStrategies,
            ImplementationPlan, RoiAnalysis, Conclusions]) =
        story g @ report_flowables (styles g) (clock world)"
    by (simp add: report_flowables_def all_sections_def)
  ultimately show ?thesis
    using generate_outcome [OF assms refl, of world]
    unfolding Let_def by (metis (no_types, lifting))
qed

text \<open>Witness for C3 as amended: a run where nothing fails.\<close>

theorem generate_order_and_failures_witness:
  "\<exists>g. init getSampleStyleSheet default_filename = Inr g \<and> resolves (styles g)
     \<and> returned (generate (quiet_world example_date) g) = Inr default_filename
     \<and> built (generate (quiet_world example_date) g) =
         [(doc g, story g @ concat (map (section_flowables (styles g)
             (clock (quiet_world example_date)))
           [CoverPage, ExecutiveSummary, TechnicalAnalysis, OptimizationStrategies,
            ImplementationPlan, RoiAnalysis, Conclusions]))]"
proof -
  obtain g where g: "init getSampleStyleSheet default_filename = Inr g"
      "filename g = default_filename" "resolves (styles g)"
    using sample_generator by blast
  have r: "returned (generate (quiet_world example_date) g) = Inr default_filename"
    using generate_quiet(1) [OF g(3)] g(2) by simp
  from generate_order_and_failures [OF g(3), of example_date "quiet_world example_date"] r
  have "built (generate (quiet_world example_date) g) =
         [(doc g, story g @ concat (map (section_flowables (styles g)
             (clock (quiet_world example_date)))
           [CoverPage, ExecutiveSummary, TechnicalAnalysis, OptimizationStrategies,
            ImplementationPlan, RoiAnalysis, Conclusions]))]"
    unfolding Let_def by blast
  with g r show ?thesis by blast
qed

text \<open>
  Counterexample to C3 as stated: \<open>generate\<close> fails although the collaborator never
  does, once on an output stream that cannot encode the first line (the collaborator is
  not even called), once when the size query fails after a build that succeeded.
\<close>

theorem generate_fails_without_build_failure:
  "\<exists>g. init getSampleStyleSheet default_filename = Inr g
     \<and> returned (generate ascii_world g) = Inl (UnicodeEncodeError ''ascii'')
     \<and> built (generate ascii_world g) = []
     \<and> (\<forall>template fs. fst (doc_build ascii_world template fs) = None)
     \<and> returned (generate vanished_world g) = Inl (OSError ''No such file or directory'')
     \<and> map (length \<circ> snd) (built (generate vanished_world g)) = [189]
     \<and> (\<forall>template fs. fst (doc_build vanished_world template fs) = None)"
proof -
  obtain g where g: "init getSampleStyleSheet default_filename = Inr g"
      "filename g = default_filename" "story g = []" "resolves (styles g)"
    using sample_generator by blast
  have "stdout_print ascii_world (line_start g) = Some (UnicodeEncodeError ''ascii'')"
    by (simp add: ascii_world_def line_start_def e_acute_def)
  then have 1: "returned (generate ascii_world g) = Inl (UnicodeEncodeError ''ascii'')"
    and 2: "built (generate ascii_world g) = []"
    by (simp_all add: generate_def)
  have 3: "\<forall>template fs. fst (doc_build ascii_world template fs) = None"
    by (simp add: ascii_world_def)
  have 4: "returned (generate vanished_world g) = Inl (OSError ''No such file or directory'')"
    and 5: "map (length \<circ> snd) (built (generate vanished_world g)) = [189]"
    by (simp_all add: generate_resolved [OF g(4)] vanished_world_def Let_def g(3)
        length_report_flowables [OF g(4)])
  have 6: "\<forall>template fs. fst (doc_build vanished_world template fs) = None"
    by (simp add: vanished_world_def)
  show ?thesis
    by (rule exI [of _ g]) (intro conjI g(1) 1 2 3 4 5 6)
qed

subsection \<open>C4: the story is append-only\<close>

text \<open>
  C4: for every sequence of builder invocations on a generator whose registry holds the
  eight styles the builders name, after each invocation no exception was raised, the
  length of the story is its initial length plus the block counts of the sections
  invoked so far, and the story at that point is an initial segment of the final story
  (no block appended earlier moves).
\<close>

theorem story_grows_by_section_counts:
  assumes "resolves (styles g)"
  shows "\<forall>k \<le> length invs.
     fst (invocations (take k invs) g) = None
     \<and> length (story (snd (invocations (take k invs) g))) =
         length (story g) + sum_list (map (block_count \<circ> fst) (take k invs))
     \<and> take (length (story (snd (invocations (take k invs) g))))
           (story (snd (invocations invs g))) =
         story (snd (invocations (take k invs) g))"
proof (intro allI impI)
  fix k assume "k \<le> length invs"
  let ?F = "\<lambda>(s, now). section_flowables (styles g) now s"
  have len: "length (concat (map ?F xs)) = sum_list (map (block_count \<circ> fst) xs)" for xs
    by (induction xs) (auto simp: section_resolved(2) [OF assms])
  have "concat (map ?F invs) = concat (map ?F (take k invs)) @ concat (map ?F (drop k invs))"
    by (metis append_take_drop_id concat_append map_append)
  then show "fst (invocations (take k invs) g) = None
     \<and> length (story (snd (invocations (take k invs) g))) =
         length (story g) + sum_list (map (block_count \<circ> fst) (take k invs))
     \<and> take (length (story (snd (invocations (take k invs) g))))
           (story (snd (invocations invs g))) =
         story (snd (invocations (take k invs) g))"
    by (simp add: invocations_resolved [OF assms] len)
qed

text \<open>Witness for C4: the conclusions, then the cover page.\<close>

theorem story_grows_by_section_counts_witness:
  "\<exists>g. init getSampleStyleSheet default_filename = Inr g \<and> resolves (styles g)
     \<and> fst (invocations [(Conclusions, example_date)] g) = None
     \<and> length (story (snd (invocations [(Conclusions, example_date)] g))) = 34
     \<and> length (story (snd (invocations
          [(Conclusions, example_date), (CoverPage, next_day)] g))) = 42
     \<and> take 34 (story (snd (invocations
          [(Conclusions, example_date), (CoverPage, next_day)] g))) =
        story (snd (invocations [(Conclusions, example_date)] g))"
proof -
  obtain g where g: "init getSampleStyleSheet default_filename = Inr g" "story g = []"
      "resolves (styles g)"
    using sample_generator by blast
  let ?invs = "[(Conclusions, example_date), (CoverPage, next_day)]"
  let ?one = "[(Conclusions, example_date)]"
  have le: "1 \<le> length ?invs" "2 \<le> length ?invs" by simp_all
  have tk: "take 1 ?invs = ?one" "take 2 ?invs = ?invs" by simp_all
  have sm: "length (story g) + sum_list (map (block_count \<circ> fst) ?one) = 34"
      "length (story g) + sum_list (map (block_count \<circ> fst) ?invs) = 42"
    by (simp_all add: g(2))
  note T = story_grows_by_section_counts [OF g(3), of ?invs, rule_format]
  note T1 = T [OF le(1), unfolded tk sm]
  note T2 = T [OF le(2), unfolded tk sm]
  from T1 have len1: "length (story (snd (invocations ?one g))) = 34" by blast
  from T1 have "take (length (story (snd (invocations ?one g)))) (story (snd (invocations ?invs g)))
      = story (snd (invocations ?one g))" by blast
  then have pre: "take 34 (story (snd (invocations ?invs g))) = story (snd (invocations ?one g))"
    unfolding len1 .
  from T1 T2 pre g(1,3) show ?thesis by blast
qed

subsection \<open>C5: the constructor\<close>

text \<open>
  C5: for every output path, the constructor yields a generator whose story is empty and
  in whose registry each of the seven custom style names resolves, given a sample sheet
  that has the five parents and none of the seven names.
\<close>

theorem init_registers_styles:
  assumes "sample_ok sample"
  shows "\<exists>g. init sample fn = Inr g \<and> story g = [] \<and> length (story g) = 0
           \<and> list_all (has_style (styles g)) custom_styles"
  using init_ok [OF assms, of fn] by (auto simp: list_all_iff)

text \<open>Witness for C5: the library's sample sheet and the default file name.\<close>

theorem init_registers_styles_witness:
  "sample_ok getSampleStyleSheet \<and>
     (\<exists>g. init getSampleStyleSheet default_filename = Inr g \<and> story g = []
        \<and> length (story g) = 0 \<and> list_all (has_style (styles g)) custom_styles)"
  using init_registers_styles [of getSampleStyleSheet default_filename] sample_sheet_ok(1)
  by simp

subsection \<open>C6: the style registry after initialization\<close>

text \<open>
  C6 says that the style registry is immutable after initialization and that every style
  used when appending a block is obtained by name lookup in it. The first part holds; the
  second holds of paragraphs and fails for tables, whose style commands the builders
  write inline. As amended: no builder and no call of \<open>generate\<close> changes the style
  registry; the style handed to the constructor of every paragraph a builder appends is
  the result of a lookup by name in the registry; every table a builder appends is one
  of the seven declared tables, whatever the registry holds, and these carry 11, 10, 11,
  10, 12, 12 and 10 style commands written in the builders, none of them looked up.
\<close>

theorem styles_fixed_after_init:
  "styles (snd (add_section now s g)) = styles g
     \<and> styles (self (generate world g)) = styles g
     \<and> (\<forall>f \<in> set (appended_by (add_section now s) g). \<forall>body st.
          f = Paragraph body st \<longrightarrow> (\<exists>key. stylesheet_getitem (styles g) key = Inr st))
     \<and> (\<forall>f \<in> set (appended_by (add_section now s) g).
          is_table f \<longrightarrow> f \<in> set declared_tables)
     \<and> map (length \<circ> table_cmds) declared_tables = [11, 10, 11, 10, 12, 12, 10]"
  using resolved_paragraphs_from_sheet [OF section_flows_not_paragraphs]
    appended_tables_declared inline_commands
  by (auto simp: add_section_appends appended_by_add_section generate_styles)

text \<open>
  Witness for C6 as amended: the title paragraph and the summary table of the cover page.
\<close>

theorem styles_fixed_after_init_witness:
  "\<exists>g st. init getSampleStyleSheet default_filename = Inr g
     \<and> Paragraph ''JobNimbus MCP Remote Server'' st
          \<in> set (appended_by (add_section example_date CoverPage) g)
     \<and> (\<exists>key. stylesheet_getitem (styles g) key = Inr st)
     \<and> styles (snd (add_section example_date CoverPage g)) = styles g
     \<and> summary_table \<in> set (appended_by (add_section example_date CoverPage) g)
     \<and> is_table summary_table
     \<and> summary_table \<in> set declared_tables"
proof -
  obtain g where g: "init getSampleStyleSheet default_filename = Inr g" "story g = []"
      "resolves (styles g)"
    using sample_generator by blast
  then have "has_style (styles g) ''CustomTitle''" "has_style (styles g) ''CustomSubtitle''"
      "has_style (styles g) ''BodyText''"
    by (simp_all add: resolves_def referenced_styles_def)
  then obtain st st2 st3 where st: "stylesheet_getitem (styles g) ''CustomTitle'' = Inr st"
      "stylesheet_getitem (styles g) ''CustomSubtitle'' = Inr st2"
      "stylesheet_getitem (styles g) ''BodyText'' = Inr st3"
    by (auto simp: has_style_def split: sum.splits)
  note mem = cover_page_members [OF st, of example_date]
  note T = styles_fixed_after_init [of example_date CoverPage g]
  have tab: "is_table summary_table" by (rule the_tables(1))
  from T mem(1) have 1: "\<exists>key. stylesheet_getitem (styles g) key = Inr st"
    by blast
  from T have 2: "styles (snd (add_section example_date CoverPage g)) = styles g"
    by blast
  from T mem(2) tab have 3: "summary_table \<in> set declared_tables"
    by blast
  show ?thesis
    by (rule exI [of _ g], rule exI [of _ st]) (intro conjI g(1) mem 1 2 tab 3)
qed

text \<open>
  Counterexample to C6 as stated: the cover page appends the summary table with its 11
  style commands, the first a background colour; no lookup yields them, since the same
  table with the same commands is appended on a generator whose registry is empty.
\<close>

theorem table_style_not_from_registry:
  "\<exists>g. init getSampleStyleSheet default_filename = Inr g
     \<and> summary_table \<in> set (appended_by (add_section example_date CoverPage) g)
     \<and> length (table_cmds summary_table) = 11
     \<and> hd (table_cmds summary_table) =
         TableCmd ''BACKGROUND'' (0, 0) (-1, 0) [Colour (HexColor ''#1e3a8a'')]
     \<and> (\<forall>key. \<not> has_style empty_sheet key)
     \<and> story_append (Flow summary_table) (g\<lparr>styles := empty_sheet\<rparr>) =
         (None, g\<lparr>styles := empty_sheet, story := story g @ [summary_table]\<rparr>)"
proof -
  obtain g where g: "init getSampleStyleSheet default_filename = Inr g" "story g = []"
      "resolves (styles g)"
    using sample_generator by blast
  then have "has_style (styles g) ''CustomTitle''" "has_style (styles g) ''CustomSubtitle''"
      "has_style (styles g) ''BodyText''"
    by (simp_all add: resolves_def referenced_styles_def)
  then obtain st st2 st3 where st: "stylesheet_getitem (styles g) ''CustomTitle'' = Inr st"
      "stylesheet_getitem (styles g) ''CustomSubtitle'' = Inr st2"
      "stylesheet_getitem (styles g) ''BodyText'' = Inr st3"
    by (auto simp: has_style_def split: sum.splits)
  note mem = cover_page_members(2) [OF st, of example_date]
  have 1: "length (table_cmds summary_table) = 11"
    and 2: "hd (table_cmds summary_table) =
         TableCmd ''BACKGROUND'' (0, 0) (-1, 0) [Colour (HexColor ''#1e3a8a'')]"
    by (simp_all add: summary_table_def Table_def)
  have 3: "\<forall>key. \<not> has_style empty_sheet key"
    by (simp add: has_style_def stylesheet_getitem_def empty_sheet_def)
  have 4: "story_append (Flow summary_table) (g\<lparr>styles := empty_sheet\<rparr>) =
         (None, g\<lparr>styles := empty_sheet, story := story g @ [summary_table]\<rparr>)"
    by (simp add: story_append_Flow)
  show ?thesis
    by (rule exI [of _ g]) (intro conjI g(1) mem 1 2 3 4)
qed

subsection \<open>C7: the tables\<close>

text \<open>
  C7: the tables appended by the seven builders are the seven declared ones, each with
  all its declared rows: one header row plus 6, 7, 8, 5, 6, 3 and 3 data rows; every row
  has as many cells as the table has column widths.
\<close>

theorem tables_keep_declared_rows:
  assumes "resolves (styles g)"
  shows "map table_data (tables_of (appended_by (add_sections now) g)) =
       [summary_data, impact_data, stack_data, scenarios_data, timeline_data,
        costs_data, roi_data]
     \<and> map (length \<circ> table_data) (tables_of (appended_by (add_sections now) g)) =
       [1 + 6, 1 + 7, 1 + 8, 1 + 5, 1 + 6, 1 + 3, 1 + 3]
     \<and> list_all rectangular (tables_of (appended_by (add_sections now) g))"
  using data_rows tables_rectangular
  by (simp add: appended_by_add_sections [OF assms] report_tables [OF assms] the_tables)

text \<open>Witness for C7, on the generator the constructor makes.\<close>

theorem tables_keep_declared_rows_witness:
  "\<exists>g. init getSampleStyleSheet default_filename = Inr g \<and> resolves (styles g)
     \<and> map (length \<circ> table_data) (tables_of (appended_by (add_sections example_date) g)) =
       [7, 8, 9, 6, 7, 4, 4]"
proof -
  obtain g where g: "init getSampleStyleSheet default_filename = Inr g" "story g = []"
      "resolves (styles g)"
    using sample_generator by blast
  from tables_keep_declared_rows [OF g(3), of example_date] g show ?thesis
    by (intro exI [of _ g]) simp
qed

subsection \<open>C8: an invalid output path\<close>

text \<open>
  C8 says that an invalid output path is reported before any rendering work begins and
  that rendering errors carry their section. As amended: the constructor accepts every
  path and keeps it as it is; a path the collaborator cannot write to surfaces only as
  the collaborator's exception in \<open>build\<close>, after all seven sections were appended and
  handed over, and \<open>generate\<close> raises that exception unchanged, having printed only its
  first line.
\<close>

theorem path_checked_only_by_build:
  assumes "sample_ok sample" and "has_style sample ''Code''"
  shows "\<exists>g. init sample fn = Inr g \<and> filename g = fn \<and> doc_filename (doc g) = fn
     \<and> (\<forall>e. stdout_print world (line_start g) = None
             \<and> fst (doc_build world (doc g) (report_flowables (styles g) (clock world))) = Some e
           \<longrightarrow> returned (generate world g) = Inl e
               \<and> built (generate world g) = [(doc g, report_flowables (styles g) (clock world))]
               \<and> printed (generate world g) = [line_start g])"
proof -
  obtain g where g: "init sample fn = Inr g" "filename g = fn" "story g = []"
      "doc g = SimpleDocTemplate fn letter (75/100 * inch) (75/100 * inch)
         (75/100 * inch) (75/100 * inch)"
    using init_ok [OF assms(1), of fn] by blast
  have r: "resolves (styles g)"
    using init_resolves [OF assms g(1)] .
  have d: "doc_filename (doc g) = fn"
    unfolding g(4) by (simp add: SimpleDocTemplate_def)
  note o = generate_outcome [OF r refl, of world, unfolded g(3) append_Nil]
  have "\<forall>e. stdout_print world (line_start g) = None
             \<and> fst (doc_build world (doc g) (report_flowables (styles g) (clock world))) = Some e
           \<longrightarrow> returned (generate world g) = Inl e
               \<and> built (generate world g) = [(doc g, report_flowables (styles g) (clock world))]
               \<and> printed (generate world g) = [line_start g]"
    using o(1) o(5) by metis
  with g(1,2) d show ?thesis
    by (intro exI [of _ g] conjI)
qed

text \<open>Witness for C8 as amended: a path in a directory that does not exist.\<close>

theorem path_checked_only_by_build_witness:
  "sample_ok getSampleStyleSheet \<and> has_style getSampleStyleSheet ''Code''
     \<and> (\<exists>g. init getSampleStyleSheet bad_path = Inr g
          \<and> filename g = bad_path
          \<and> returned (generate unwritable_world g) = Inl (OSError ''No such file or directory'')
          \<and> built (generate unwritable_world g) =
               [(doc g, report_flowables (styles g) (clock unwritable_world))])"
proof -
  from path_checked_only_by_build [OF sample_sheet_ok, of bad_path unwritable_world]
  obtain g where g: "init getSampleStyleSheet bad_path = Inr g"
      "filename g = bad_path"
      "\<forall>e. stdout_print unwritable_world (line_start g) = None
             \<and> fst (doc_build unwritable_world (doc g)
                  (report_flowables (styles g) (clock unwritable_world))) = Some e
           \<longrightarrow> returned (generate unwritable_world g) = Inl e
               \<and> built (generate unwritable_world g) =
                   [(doc g, report_flowables (styles g) (clock unwritable_world))]
               \<and> printed (generate unwritable_world g) = [line_start g]"
    by blast
  have p: "stdout_print unwritable_world (line_start g) = None"
    and b: "fst (doc_build unwritable_world (doc g)
         (report_flowables (styles g) (clock unwritable_world))) =
       Some (OSError ''No such file or directory'')"
    by (simp_all add: unwritable_world_def)
  from g(3) [rule_format, OF conjI [OF p b]]
  have res: "returned (generate unwritable_world g) = Inl (OSError ''No such file or directory'')"
    and bld: "built (generate unwritable_world g) =
           [(doc g, report_flowables (styles g) (clock unwritable_world))]"
    by simp_all
  have "\<exists>g. init getSampleStyleSheet bad_path = Inr g
          \<and> filename g = bad_path
          \<and> returned (generate unwritable_world g) = Inl (OSError ''No such file or directory'')
          \<and> built (generate unwritable_world g) =
               [(doc g, report_flowables (styles g) (clock unwritable_world))]"
    by (rule exI [of _ g]) (intro conjI g(1) g(2) res bld)
  then show ?thesis
    by (intro conjI sample_sheet_ok)
qed

text \<open>
  Counterexample to C8 as stated: for a path in a directory that does not exist the
  constructor succeeds, and \<open>generate\<close> fails with the collaborator's exception only after
  the collaborator was handed the 189 flowables of the report.
\<close>

theorem bad_path_surfaces_in_build:
  "\<exists>g. init getSampleStyleSheet bad_path = Inr g
     \<and> filename g = bad_path
     \<and> returned (generate unwritable_world g) = Inl (OSError ''No such file or directory'')
     \<and> map (length \<circ> snd) (built (generate unwritable_world g)) = [189]
     \<and> printed (generate unwritable_world g) = [line_start g]"
proof -
  obtain g where g: "init getSampleStyleSheet bad_path = Inr g"
      "filename g = bad_path" "story g = []" "resolves (styles g)"
    using sample_generator by blast
  have 4: "map (length \<circ> snd) (built (generate unwritable_world g)) = [189]"
    unfolding generate_unwritable(2) [OF g(4)]
    by (simp add: g(3) length_report_flowables [OF g(4)])
  show ?thesis
    by (rule exI [of _ g])
      (intro conjI g(1) g(2) generate_unwritable(1) [OF g(4)] 4 generate_unwritable(3) [OF g(4)])
qed

subsection \<open>C9: what a builder changes\<close>

text \<open>
  C9: a builder changes nothing of the generator but the story: the file name, the
  document template and the style registry are as before, and the prior story is an
  initial segment of the new one. This holds also when a lookup fails on the way.
\<close>

theorem builder_only_grows_story:
  "filename (snd (add_section now s g)) = filename g
     \<and> doc (snd (add_section now s g)) = doc g
     \<and> styles (snd (add_section now s g)) = styles g
     \<and> take (length (story g)) (story (snd (add_section now s g))) = story g"
  by (simp add: add_section_appends)

text \<open>Witness for C9: the conclusions on the generator the constructor makes.\<close>

theorem builder_only_grows_story_witness:
  "\<exists>g. init getSampleStyleSheet default_filename = Inr g
     \<and> filename (snd (add_section example_date Conclusions g)) = filename g
     \<and> doc (snd (add_section example_date Conclusions g)) = doc g
     \<and> styles (snd (add_section example_date Conclusions g)) = styles g
     \<and> take (length (story g)) (story (snd (add_section example_date Conclusions g))) = story g"
proof -
  obtain g where g: "init getSampleStyleSheet default_filename = Inr g"
    using sample_generator by blast
  show ?thesis
    by (rule exI [of _ g])
      (rule conjI [OF g builder_only_grows_story [of example_date Conclusions g]])
qed

subsection \<open>C10: the style names the builders use\<close>

text \<open>
  C10: given a sample sheet that has the five parents and the style \<open>Code\<close> and none of
  the seven custom names, registration does not raise, the eight names the builders use
  all resolve, so no builder raises, and these eight are all the names the builders
  use: \<open>CustomCode\<close> is registered and never used.
\<close>

theorem referenced_styles_resolve:
  assumes "sample_ok sample" and "has_style sample ''Code''"
  shows "\<exists>g. init sample fn = Inr g
     \<and> list_all (has_style (styles g)) referenced_styles
     \<and> (\<forall>s. fst (add_section now s g) = None)
     \<and> fst (add_sections now g) = None
     \<and> set (style_keys (concat (map (section_blocks now) all_sections))) = set referenced_styles
     \<and> ''CustomCode'' \<notin> set (style_keys (concat (map (section_blocks now) all_sections)))
     \<and> ''CustomCode'' \<in> set custom_styles"
proof -
  obtain g where g: "init sample fn = Inr g"
    using init_ok [OF assms(1), of fn] by blast
  have r: "resolves (styles g)"
    using init_resolves [OF assms g] .
  have "''CustomCode'' \<notin> set referenced_styles"
    by (simp add: referenced_styles_def)
  with g r show ?thesis
    by (auto simp: add_section_resolved add_sections_resolved report_keys resolves_def
        custom_styles_def)
qed

text \<open>Witness for C10: the library's sample sheet.\<close>

theorem referenced_styles_resolve_witness:
  "sample_ok getSampleStyleSheet \<and> has_style getSampleStyleSheet ''Code''
     \<and> (\<exists>g. init getSampleStyleSheet default_filename = Inr g
        \<and> list_all (has_style (styles g)) referenced_styles
        \<and> fst (add_sections example_date g) = None)"
  using referenced_styles_resolve [OF sample_sheet_ok, of default_filename example_date]
    sample_sheet_ok
  by blast

end
